theory Spec2Isabelle
  imports Complex_Main
begin

section \<open>JavaScript numbers\<close>

text \<open>
  The program computes with JavaScript numbers. A finite number is idealised as a real
  (rounding and overflow are not modelled, so the infinities, which this program can only
  reach by overflow, are left out); \<open>NaN\<close> is kept as a value of its own, because the
  program tests for it and because every comparison with it is false. Arithmetic
  propagates \<open>NaN\<close>; the ordering is the one of \<open>a < b\<close> and \<open>a <= b\<close> in the source, false as
  soon as one side is \<open>NaN\<close>.
\<close>

datatype jsnum = Num real | NaN

instantiation jsnum :: "{plus, minus, times, uminus, inverse, abs, ord}"
begin

fun plus_jsnum :: "jsnum \<Rightarrow> jsnum \<Rightarrow> jsnum" where
  "plus_jsnum (Num a) (Num b) = Num (a + b)"
| "plus_jsnum _ _ = NaN"

fun minus_jsnum :: "jsnum \<Rightarrow> jsnum \<Rightarrow> jsnum" where
  "minus_jsnum (Num a) (Num b) = Num (a - b)"
| "minus_jsnum _ _ = NaN"

fun times_jsnum :: "jsnum \<Rightarrow> jsnum \<Rightarrow> jsnum" where
  "times_jsnum (Num a) (Num b) = Num (a * b)"
| "times_jsnum _ _ = NaN"

text \<open>The program divides by the literal 2 and by a vector length that it has replaced
  by 1 when it was 0; a zero divisor (an infinity in JavaScript) is outside the model.\<close>

fun divide_jsnum :: "jsnum \<Rightarrow> jsnum \<Rightarrow> jsnum" where
  "divide_jsnum (Num a) (Num b) = (if b = 0 then NaN else Num (a / b))"
| "divide_jsnum _ _ = NaN"

fun inverse_jsnum :: "jsnum \<Rightarrow> jsnum" where
  "inverse_jsnum (Num a) = (if a = 0 then NaN else Num (inverse a))"
| "inverse_jsnum NaN = NaN"

fun uminus_jsnum :: "jsnum \<Rightarrow> jsnum" where
  "uminus_jsnum (Num a) = Num (- a)"
| "uminus_jsnum NaN = NaN"

fun abs_jsnum :: "jsnum \<Rightarrow> jsnum" where
  "abs_jsnum (Num a) = Num \<bar>a\<bar>"
| "abs_jsnum NaN = NaN"

fun less_jsnum :: "jsnum \<Rightarrow> jsnum \<Rightarrow> bool" where
  "less_jsnum (Num a) (Num b) = (a < b)"
| "less_jsnum _ _ = False"

fun less_eq_jsnum :: "jsnum \<Rightarrow> jsnum \<Rightarrow> bool" where
  "less_eq_jsnum (Num a) (Num b) = (a \<le> b)"
| "less_eq_jsnum _ _ = False"

instance ..

end

text \<open>\<open>Math.sqrt\<close>, \<open>isNaN\<close>, and the truthiness of a number (\<open>0\<close> and \<open>NaN\<close> are falsy).\<close>

fun jsSqrt :: "jsnum \<Rightarrow> jsnum" where
  "jsSqrt (Num a) = (if a < 0 then NaN else Num (sqrt a))"
| "jsSqrt NaN = NaN"

fun isNaN :: "jsnum \<Rightarrow> bool" where
  "isNaN NaN = True"
| "isNaN (Num a) = False"

fun truthy :: "jsnum \<Rightarrow> bool" where
  "truthy (Num a) = (a \<noteq> 0)"
| "truthy NaN = False"

text \<open>\<open>a !== b\<close> on two numbers: \<open>NaN\<close> differs from every number, itself included.\<close>

fun strictNeq :: "jsnum \<Rightarrow> jsnum \<Rightarrow> bool" where
  "strictNeq (Num a) (Num b) = (a \<noteq> b)"
| "strictNeq _ _ = True"

text \<open>\<open>a !== p.f\<close> where the property \<open>f\<close> may be missing (\<open>undefined\<close>, here \<open>None\<close>):
  a number always differs from \<open>undefined\<close>.\<close>

fun strictNeqProp :: "jsnum \<Rightarrow> jsnum option \<Rightarrow> bool" where
  "strictNeqProp a None = True"
| "strictNeqProp a (Some b) = strictNeq a b"

text \<open>\<open>p.f || d\<close> for a numeric property that may be missing: the default is taken when
  the property is \<open>undefined\<close>, \<open>0\<close> or \<open>NaN\<close>.\<close>

fun orElse :: "jsnum option \<Rightarrow> jsnum \<Rightarrow> jsnum" where
  "orElse None d = d"
| "orElse (Some v) d = (if truthy v then v else d)"

section \<open>Vectors and quaternions of the rendering library\<close>

text \<open>
  \<open>THREE.Vector3\<close> and \<open>THREE.Quaternion\<close> belong to the rendering library, not to the
  program. The few vector operations the program calls are written out here from the
  library's definitions: \<open>length\<close> is the Euclidean norm, \<open>normalize\<close> is
  \<open>divideScalar(length() || 1)\<close>, \<open>divideScalar(s)\<close> is \<open>multiplyScalar(1 / s)\<close>.
\<close>

datatype vector3 = Vector3 (vecX: jsnum) (vecY: jsnum) (vecZ: jsnum)

datatype quaternion = Quaternion jsnum jsnum jsnum jsnum

fun toArray :: "quaternion \<Rightarrow> jsnum list" where
  "toArray (Quaternion a b c d) = [a, b, c, d]"

definition vlength :: "vector3 \<Rightarrow> jsnum" where
  "vlength v = jsSqrt (vecX v * vecX v + vecY v * vecY v + vecZ v * vecZ v)"

definition multiplyScalar :: "vector3 \<Rightarrow> jsnum \<Rightarrow> vector3" where
  "multiplyScalar v s = Vector3 (vecX v * s) (vecY v * s) (vecZ v * s)"

definition divideScalar :: "vector3 \<Rightarrow> jsnum \<Rightarrow> vector3" where
  "divideScalar v s = multiplyScalar v (Num 1 / s)"

definition normalize :: "vector3 \<Rightarrow> vector3" where
  "normalize v = divideScalar v (if truthy (vlength v) then vlength v else Num 1)"

definition vadd :: "vector3 \<Rightarrow> vector3 \<Rightarrow> vector3" where
  "vadd v w = Vector3 (vecX v + vecX w) (vecY v + vecY w) (vecZ v + vecZ w)"

definition addScaledVector :: "vector3 \<Rightarrow> vector3 \<Rightarrow> jsnum \<Rightarrow> vector3" where
  "addScaledVector v w s = Vector3 (vecX v + vecX w * s) (vecY v + vecY w * s) (vecZ v + vecZ w * s)"

definition crossVectors :: "vector3 \<Rightarrow> vector3 \<Rightarrow> vector3" where
  "crossVectors a b = Vector3 (vecY a * vecZ b - vecZ a * vecY b)
                              (vecZ a * vecX b - vecX a * vecZ b)
                              (vecX a * vecY b - vecY a * vecX b)"

definition setY :: "vector3 \<Rightarrow> jsnum \<Rightarrow> vector3" where
  "setY v c = Vector3 (vecX v) c (vecZ v)"

section \<open>The player controls\<close>

text \<open>Movement constants of the controls module.\<close>

definition SPEED :: jsnum where "SPEED = Num (8 / 100)"
definition GRAVITY :: jsnum where "GRAVITY = Num (1 / 100)"
definition JUMP_FORCE :: jsnum where "JUMP_FORCE = Num (25 / 100)"

text \<open>
  The fields of a \<open>PlayerControls\<close> object that its methods read or write. Of the velocity
  vector only the \<open>y\<close> component is ever touched. The camera is the library's object; its
  position, orientation and up vector are the parts the program uses. \<open>orbitTarget\<close> is
  the target of the orbit controls, \<open>None\<close> when \<open>this.orbitControls\<close> was never created
  (desktop). \<open>jumpSoundPlays\<close> counts the calls of \<open>jumpSound.play()\<close>.
\<close>

record PlayerControls =
  velocityY :: jsnum
  canJump :: bool
  keysPressed :: "string set"
  isMobile :: bool
  moveForward :: jsnum
  moveRight :: jsnum
  jumpButtonPressed :: bool
  playerX :: jsnum
  playerZ :: jsnum
  cameraPosition :: vector3
  cameraQuaternion :: quaternion
  cameraUp :: vector3
  orbitTarget :: "vector3 option"
  jumpSoundPlays :: nat

subsection \<open>Input events\<close>

text \<open>\<open>String.prototype.toLowerCase\<close> on the ASCII letters, which is all the key names of
  the program need.\<close>

definition toLowerChar :: "char \<Rightarrow> char" where
  "toLowerChar c =
     (case map_of (zip ''ABCDEFGHIJKLMNOPQRSTUVWXYZ'' ''abcdefghijklmnopqrstuvwxyz'') c of
        None \<Rightarrow> c
      | Some l \<Rightarrow> l)"

definition toLowerCase :: "string \<Rightarrow> string" where
  "toLowerCase k = map toLowerChar k"

text \<open>The \<open>keydown\<close> listener: the key is recorded as held, and the space bar jumps when
  jumping is allowed.\<close>

definition keydown :: "string \<Rightarrow> PlayerControls \<Rightarrow> PlayerControls" where
  "keydown k s =
     (let s1 = s\<lparr>keysPressed := insert (toLowerCase k) (keysPressed s)\<rparr>
      in if k = '' '' \<and> canJump s1
         then s1\<lparr>velocityY := JUMP_FORCE, canJump := False,
                 jumpSoundPlays := Suc (jumpSoundPlays s1)\<rparr>
         else s1)"

definition keyup :: "string \<Rightarrow> PlayerControls \<Rightarrow> PlayerControls" where
  "keyup k s = s\<lparr>keysPressed := keysPressed s - {toLowerCase k}\<rparr>"

text \<open>The \<open>touchstart\<close> and \<open>touchend\<close> listeners of the mobile jump button.\<close>

definition jumpTouchStart :: "PlayerControls \<Rightarrow> PlayerControls" where
  "jumpTouchStart s =
     (let s1 = s\<lparr>jumpButtonPressed := True\<rparr>
      in if canJump s1
         then s1\<lparr>velocityY := JUMP_FORCE, canJump := False,
                 jumpSoundPlays := Suc (jumpSoundPlays s1)\<rparr>
         else s1)"

definition jumpTouchEnd :: "PlayerControls \<Rightarrow> PlayerControls" where
  "jumpTouchEnd s = s\<lparr>jumpButtonPressed := False\<rparr>"

text \<open>The joystick's \<open>end\<close> listener.\<close>

definition joystickEnd :: "PlayerControls \<Rightarrow> PlayerControls" where
  "joystickEnd s = s\<lparr>moveForward := Num 0, moveRight := Num 0\<rparr>"

subsection \<open>The shared presence record, the scene, and what a frame reads\<close>

text \<open>
  A presence record as it is stored in the room: every property may be missing
  (\<open>undefined\<close>, here \<open>None\<close>). \<open>updatePresence\<close> is given such a partial record as well.
\<close>

record presenceRecord =
  presX :: "jsnum option"
  presY :: "jsnum option"
  presZ :: "jsnum option"
  presQuaternion :: "jsnum list option"
  presName :: "string option"
  presColor :: "string option"

definition emptyPresence :: presenceRecord where
  "emptyPresence = \<lparr>presX = None, presY = None, presZ = None, presQuaternion = None,
                     presName = None, presColor = None\<rparr>"

text \<open>
  A child of the scene, as \<open>processMovement\<close> sees it: its position, the size of its
  bounding box when it has a geometry (\<open>Box3.setFromObject\<close>, computed by the library),
  and the two marks of \<open>userData\<close> (a missing mark is falsy).
\<close>

record sceneChild =
  childPosition :: vector3
  geometrySize :: "vector3 option"
  isBlock :: bool
  isBarrier :: bool

text \<open>
  What one call of \<open>processMovement\<close> reads from outside the controls object: whether the
  pointer is locked on the canvas (\<open>document.pointerLockElement === this.domElement\<close>),
  this client's record in the room (\<open>None\<close> when there is none), the children of the scene,
  and two functions of the library: \<open>camera.getWorldDirection\<close>, a function of the camera's
  orientation, and \<open>orbitControls.update()\<close>, which moves the camera around the target.
\<close>

record frameEnv =
  pointerLocked :: bool
  selfPresence :: "presenceRecord option"
  sceneChildren :: "sceneChild list"
  getWorldDirection :: "quaternion \<Rightarrow> vector3"
  orbitControlsUpdate :: "vector3 \<Rightarrow> vector3 \<times> quaternion \<Rightarrow> vector3 \<times> quaternion"

subsection \<open>The movement vector\<close>

definition zeroVector :: vector3 where
  "zeroVector = Vector3 (Num 0) (Num 0) (Num 0)"

text \<open>The keyboard branch: \<open>w\<close>/\<open>s\<close> set \<open>moveDirection.z\<close>, \<open>a\<close>/\<open>d\<close> set \<open>moveDirection.x\<close>; of two
  opposite keys the first one tested wins.\<close>

definition keyboardDirection :: "string set \<Rightarrow> vector3" where
  "keyboardDirection keys =
     Vector3
       (if ''a'' \<in> keys \<or> ''arrowleft'' \<in> keys then Num 1
        else if ''d'' \<in> keys \<or> ''arrowright'' \<in> keys then Num (- 1)
        else Num 0)
       (Num 0)
       (if ''w'' \<in> keys \<or> ''arrowup'' \<in> keys then Num 1
        else if ''s'' \<in> keys \<or> ''arrowdown'' \<in> keys then Num (- 1)
        else Num 0)"

definition moveDirection :: "frameEnv \<Rightarrow> PlayerControls \<Rightarrow> vector3" where
  "moveDirection env s =
     (if isMobile s then
        (if strictNeq (moveForward s) (Num 0) \<or> strictNeq (moveRight s) (Num 0) then
           (let forward = normalize (setY (getWorldDirection env (cameraQuaternion s)) (Num 0));
                right = Vector3 (- vecZ forward) (Num 0) (vecX forward)
            in addScaledVector (addScaledVector zeroVector forward (moveForward s))
                 right (moveRight s))
         else zeroVector)
      else
        (let d = keyboardDirection (keysPressed s)
         in if vlength d > Num 0 then normalize d else d))"

definition movementVector :: "frameEnv \<Rightarrow> PlayerControls \<Rightarrow> vector3" where
  "movementVector env s =
     (let md = moveDirection env s;
          cameraDirection = normalize (setY (getWorldDirection env (cameraQuaternion s)) (Num 0));
          rightVector = normalize (crossVectors (cameraUp s) cameraDirection)
      in if isMobile s then md
         else
           (let m1 = (if strictNeq (vecZ md) (Num 0)
                      then vadd zeroVector (multiplyScalar cameraDirection (vecZ md))
                      else zeroVector);
                m2 = (if strictNeq (vecX md) (Num 0)
                      then vadd m1 (multiplyScalar rightVector (vecX md))
                      else m1)
            in if vlength m2 > Num 0 then multiplyScalar (normalize m2) SPEED else m2))"

subsection \<open>Collision with the blocks of the scene\<close>

definition playerRadius :: jsnum where "playerRadius = Num (3 / 10)"
definition playerHeight :: jsnum where "playerHeight = Num (18 / 10)"

text \<open>The locals of \<open>processMovement\<close> that the loop over the blocks updates.\<close>

record locals =
  newX :: jsnum
  newY :: jsnum
  newZ :: jsnum
  standingOnBlock :: bool

definition blockSize :: "sceneChild \<Rightarrow> vector3" where
  "blockSize block =
     (case geometrySize block of
        Some box \<Rightarrow> box
      | None \<Rightarrow> Vector3 (Num 1) (Num 1) (Num 1))"

text \<open>The first condition of the loop body (standing on the block). \<open>y\<close> is the height read
  from the presence record at the start of the frame.\<close>

definition standingTest :: "jsnum \<Rightarrow> sceneChild \<Rightarrow> PlayerControls \<Rightarrow> locals \<Rightarrow> bool" where
  "standingTest y block s l =
     (velocityY s \<le> Num 0 \<and>
      \<bar>newX l - vecX (childPosition block)\<bar> < vecX (blockSize block) / Num 2 + playerRadius \<and>
      \<bar>newZ l - vecZ (childPosition block)\<bar> < vecZ (blockSize block) / Num 2 + playerRadius \<and>
      \<bar>y - (vecY (childPosition block) + vecY (blockSize block) / Num 2)\<bar> < Num (2 / 10) \<and>
      y \<ge> vecY (childPosition block))"

text \<open>The second condition (horizontal collision), tested only when the first failed.\<close>

definition horizontalTest :: "sceneChild \<Rightarrow> locals \<Rightarrow> bool" where
  "horizontalTest block l =
     (\<bar>newX l - vecX (childPosition block)\<bar> < vecX (blockSize block) / Num 2 + playerRadius \<and>
      \<bar>newZ l - vecZ (childPosition block)\<bar> < vecZ (blockSize block) / Num 2 + playerRadius \<and>
      newY l < vecY (childPosition block) + vecY (blockSize block) / Num 2 \<and>
      newY l + playerHeight > vecY (childPosition block) - vecY (blockSize block) / Num 2)"

text \<open>The body of \<open>blockMeshes.forEach\<close>. \<open>cam\<close> is the camera position, which the loop does
  not change; \<open>movement\<close> is the movement vector of the frame.\<close>

definition collideBlock ::
  "vector3 \<Rightarrow> vector3 \<Rightarrow> jsnum \<Rightarrow> sceneChild \<Rightarrow> PlayerControls \<times> locals \<Rightarrow> PlayerControls \<times> locals" where
  "collideBlock cam movement y block sl =
     (let s = fst sl; l = snd sl in
      if standingTest y block s l then
        (s\<lparr>velocityY := Num 0, canJump := True\<rparr>,
         l\<lparr>standingOnBlock := True,
           newY := vecY (childPosition block) + vecY (blockSize block) / Num 2 + Num (1 / 100)\<rparr>)
      else if horizontalTest block l then
        (let xDist = \<bar>vecX cam - vecX (childPosition block)\<bar>;
             zDist = \<bar>vecZ cam - vecZ (childPosition block)\<bar>
         in if xDist > zDist \<and> \<bar>vecX movement\<bar> > Num 0 then (s, l\<lparr>newX := vecX cam\<rparr>)
            else if \<bar>vecZ movement\<bar> > Num 0 then (s, l\<lparr>newZ := vecZ cam\<rparr>)
            else (s, l))
      else (s, l))"

fun forEachBlock ::
  "vector3 \<Rightarrow> vector3 \<Rightarrow> jsnum \<Rightarrow> sceneChild list \<Rightarrow> PlayerControls \<times> locals \<Rightarrow> PlayerControls \<times> locals" where
  "forEachBlock cam movement y [] sl = sl"
| "forEachBlock cam movement y (block # blocks) sl =
     forEachBlock cam movement y blocks (collideBlock cam movement y block sl)"

text \<open>The ground check after the loop.\<close>

definition groundCheck :: "PlayerControls \<times> locals \<Rightarrow> PlayerControls \<times> locals" where
  "groundCheck sl =
     (let s = fst sl; l = snd sl in
      if newY l \<le> Num (5 / 10) \<and> \<not> standingOnBlock l
      then (s\<lparr>velocityY := Num 0, canJump := True\<rparr>, l\<lparr>newY := Num (5 / 10)\<rparr>)
      else (s, l))"

subsection \<open>Committing the position and broadcasting it\<close>

text \<open>The test of the camera direction in the mobile branch: a direction with a \<open>NaN\<close>
  component is replaced by \<open>(0, 0, -1)\<close>.\<close>

definition guardDirection :: "vector3 \<Rightarrow> vector3" where
  "guardDirection d =
     (if isNaN (vecX d) \<or> isNaN (vecY d) \<or> isNaN (vecZ d)
      then Vector3 (Num 0) (Num 0) (Num (- 1))
      else d)"

definition newOrbitTarget :: "frameEnv \<Rightarrow> PlayerControls \<Rightarrow> locals \<Rightarrow> vector3" where
  "newOrbitTarget env s l =
     (let cameraDirection = normalize (guardDirection (getWorldDirection env (cameraQuaternion s)))
      in Vector3 (newX l + vecX cameraDirection)
                 (newY l + Num (12 / 10) + vecY cameraDirection)
                 (newZ l + vecZ cameraDirection))"

text \<open>The last statement of \<open>processMovement\<close>: on mobile the orbit controls are updated,
  whether or not the position changed.\<close>

definition updateOrbitControls :: "frameEnv \<Rightarrow> PlayerControls \<Rightarrow> PlayerControls" where
  "updateOrbitControls env s =
     (case orbitTarget s of
        None \<Rightarrow> s
      | Some target \<Rightarrow>
          if isMobile s
          then (let pq = orbitControlsUpdate env target (cameraPosition s, cameraQuaternion s)
                in s\<lparr>cameraPosition := fst pq, cameraQuaternion := snd pq\<rparr>)
          else s)"

text \<open>The position is committed to the camera and sent to the room only when it differs
  from the stored record. The result is the new controls object and the record given to
  \<open>updatePresence\<close>, if it was called.\<close>

definition positionChanged :: "presenceRecord \<Rightarrow> locals \<Rightarrow> bool" where
  "positionChanged presence l =
     (strictNeqProp (newX l) (presX presence) \<or> strictNeqProp (newY l) (presY presence) \<or>
      strictNeqProp (newZ l) (presZ presence))"

definition commitPosition ::
  "frameEnv \<Rightarrow> presenceRecord \<Rightarrow> PlayerControls \<Rightarrow> locals \<Rightarrow> PlayerControls \<times> presenceRecord option" where
  "commitPosition env presence s l =
     (if positionChanged presence l
      then
        (let s1 = s\<lparr>cameraPosition := Vector3 (newX l) (newY l + Num (12 / 10)) (newZ l)\<rparr>;
             s2 = (case orbitTarget s1 of
                     None \<Rightarrow> s1
                   | Some target \<Rightarrow>
                       if isMobile s1 then s1\<lparr>orbitTarget := Some (newOrbitTarget env s1 l)\<rparr>
                       else s1)
         in (updateOrbitControls env s2,
             Some \<lparr>presX = Some (newX l), presY = Some (newY l), presZ = Some (newZ l),
                   presQuaternion = Some (toArray (cameraQuaternion s2)),
                   presName = None, presColor = None\<rparr>))
      else (updateOrbitControls env s, None))"

subsection \<open>One frame\<close>

text \<open>
  \<open>processMovement\<close>. The locals \<open>x\<close> and \<open>z\<close> of the source (\<open>presence.x || this.playerX\<close>,
  \<open>presence.z || this.playerZ\<close>) are never read and are left out; the candidate position is
  taken from the camera.
\<close>

definition blockMeshes :: "frameEnv \<Rightarrow> sceneChild list" where
  "blockMeshes env = filter (\<lambda>child. isBlock child \<or> isBarrier child) (sceneChildren env)"

definition startLocals :: "jsnum \<Rightarrow> vector3 \<Rightarrow> PlayerControls \<Rightarrow> locals" where
  "startLocals y movement s =
     \<lparr>newX = vecX (cameraPosition s) + vecX movement,
      newY = y + velocityY s,
      newZ = vecZ (cameraPosition s) + vecZ movement,
      standingOnBlock = False\<rparr>"

text \<open>The record of this client in the room, \<open>presence[id] || {}\<close>, and the height \<open>y\<close> read
  from it, \<open>presence.y || 0.5\<close>.\<close>

definition storedPresence :: "frameEnv \<Rightarrow> presenceRecord" where
  "storedPresence env = (case selfPresence env of Some p \<Rightarrow> p | None \<Rightarrow> emptyPresence)"

definition frameY :: "frameEnv \<Rightarrow> jsnum" where
  "frameY env = orElse (presY (storedPresence env)) (Num (5 / 10))"

text \<open>Gravity, the candidate position and the loop over the blocks; \<open>runBlocks\<close> is the state
  of the frame once the loop has gone through \<open>blocks\<close>, \<open>afterBlocks\<close> the state after the
  whole loop.\<close>

definition runBlocks :: "frameEnv \<Rightarrow> PlayerControls \<Rightarrow> sceneChild list \<Rightarrow> PlayerControls \<times> locals" where
  "runBlocks env s blocks =
     (let movement = movementVector env s;
          s1 = s\<lparr>velocityY := velocityY s - GRAVITY\<rparr>
      in forEachBlock (cameraPosition s1) movement (frameY env) blocks
           (s1, startLocals (frameY env) movement s1))"

definition afterBlocks :: "frameEnv \<Rightarrow> PlayerControls \<Rightarrow> PlayerControls \<times> locals" where
  "afterBlocks env s = runBlocks env s (blockMeshes env)"

text \<open>The position the frame settles on, before it is committed.\<close>

definition resolvePosition :: "frameEnv \<Rightarrow> PlayerControls \<Rightarrow> PlayerControls \<times> locals" where
  "resolvePosition env s = groundCheck (afterBlocks env s)"

definition processMovement ::
  "frameEnv \<Rightarrow> PlayerControls \<Rightarrow> PlayerControls \<times> presenceRecord option" where
  "processMovement env s =
     (if \<not> isMobile s \<and> \<not> pointerLocked env then (s, None)
      else
        (let sl = resolvePosition env s
         in commitPosition env (storedPresence env) (fst sl) (snd sl)))"

text \<open>The \<open>change\<close> listener of the pointer-lock controls (desktop): the orientation alone
  is sent.\<close>

definition controlsChange :: "PlayerControls \<Rightarrow> presenceRecord" where
  "controlsChange s = emptyPresence\<lparr>presQuaternion := Some (toArray (cameraQuaternion s))\<rparr>"

section \<open>The presence synchronizer\<close>

text \<open>
  The group that \<open>updatePlayerObject\<close> builds for a player, reduced to what the function
  sets: the colour of the body (the own group has no body), the text drawn on the name
  tag and the name remembered in its \<open>userData\<close> (the own group has no tag), the
  orientation copied to the tag, and the transform. A component of the transform is
  \<open>None\<close> when it holds \<open>undefined\<close>.
\<close>

record playerObject =
  groupId :: string
  bodyColor :: "string option"
  nameTagText :: "string option"
  nameTagCurrent :: "string option"
  nameTagFacing :: "quaternion option"
  objPosition :: "jsnum option \<times> jsnum option \<times> jsnum option"
  objQuaternion :: "jsnum option \<times> jsnum option \<times> jsnum option \<times> jsnum option"

text \<open>Calls of \<open>scene.add\<close> and \<open>scene.remove\<close> on player groups, in order.\<close>

datatype sceneEvent = Added string | Removed string

text \<open>The \<open>playerObjects\<close> map, in insertion order, and the log of scene events.\<close>

record syncState =
  playerObjects :: "(string \<times> playerObject) list"
  sceneLog :: "sceneEvent list"

definition initialSync :: syncState where
  "initialSync = \<lparr>playerObjects = [], sceneLog = []\<rparr>"

text \<open>\<open>Map.prototype.set\<close> and \<open>delete\<close>: a new key goes to the end, an old key keeps its
  place.\<close>

fun mapSet :: "string \<Rightarrow> 'v \<Rightarrow> (string \<times> 'v) list \<Rightarrow> (string \<times> 'v) list" where
  "mapSet k v [] = [(k, v)]"
| "mapSet k v (e # es) = (if fst e = k then (k, v) # es else e # mapSet k v es)"

definition mapDelete :: "string \<Rightarrow> (string \<times> 'v) list \<Rightarrow> (string \<times> 'v) list" where
  "mapDelete k es = filter (\<lambda>e. fst e \<noteq> k) es"

text \<open>The defaults spread under the incoming record: \<open>x\<close>, \<open>y\<close>, \<open>color\<close>, \<open>name\<close> and
  \<open>quaternion\<close> have one, \<open>z\<close> has none.\<close>

definition safePresence :: "presenceRecord \<Rightarrow> presenceRecord" where
  "safePresence presence =
     \<lparr>presX = Some (case presX presence of None \<Rightarrow> Num 0 | Some v \<Rightarrow> v),
      presY = Some (case presY presence of None \<Rightarrow> Num (5 / 10) | Some v \<Rightarrow> v),
      presZ = presZ presence,
      presQuaternion =
        Some (case presQuaternion presence of
                None \<Rightarrow> [Num 0, Num 0, Num 0, Num 1]
              | Some q \<Rightarrow> q),
      presName = Some (case presName presence of None \<Rightarrow> ''Unknown'' | Some n \<Rightarrow> n),
      presColor = Some (case presColor presence of None \<Rightarrow> ''#FFFFFF'' | Some c \<Rightarrow> c)\<rparr>"

text \<open>An array element, \<open>undefined\<close> beyond the end; \<open>Quaternion.fromArray\<close> of the library
  reads the first four.\<close>

definition element :: "'a list \<Rightarrow> nat \<Rightarrow> 'a option" where
  "element xs i = (if i < length xs then Some (xs ! i) else None)"

definition fromArray :: "jsnum list \<Rightarrow> jsnum option \<times> jsnum option \<times> jsnum option \<times> jsnum option" where
  "fromArray q = (element q 0, element q 1, element q 2, element q 3)"

text \<open>A fresh \<open>THREE.Group\<close> sits at the origin with the identity orientation.\<close>

definition newGroup :: "string \<Rightarrow> playerObject" where
  "newGroup ident =
     \<lparr>groupId = ident, bodyColor = None, nameTagText = None, nameTagCurrent = None,
      nameTagFacing = None,
      objPosition = (Some (Num 0), Some (Num 0), Some (Num 0)),
      objQuaternion = (Some (Num 0), Some (Num 0), Some (Num 0), Some (Num 1))\<rparr>"

text \<open>The group of another player: body and head in the player's colour, and a name tag
  with the name drawn on it.\<close>

definition newRemoteGroup :: "string \<Rightarrow> presenceRecord \<Rightarrow> playerObject" where
  "newRemoteGroup ident safe =
     (newGroup ident)\<lparr>bodyColor := presColor safe, nameTagText := presName safe\<rparr>"

text \<open>The name tag is drawn again when no name is remembered (none, or an empty one) or
  when the name differs.\<close>

definition updateNameTag :: "presenceRecord \<Rightarrow> playerObject \<Rightarrow> playerObject" where
  "updateNameTag safe obj =
     (case nameTagText obj of
        None \<Rightarrow> obj
      | Some drawn \<Rightarrow>
          (case presName safe of
             None \<Rightarrow> obj
           | Some currentName \<Rightarrow>
               if nameTagCurrent obj = None \<or> nameTagCurrent obj = Some [] \<or>
                  nameTagCurrent obj \<noteq> Some currentName
               then obj\<lparr>nameTagText := Some currentName, nameTagCurrent := Some currentName\<rparr>
               else obj))"

text \<open>
  The transform is set with \<open>position.set(x, y, z)\<close> and \<open>quaternion.fromArray\<close>. The library's
  \<open>Vector3.set\<close> starts with \<open>if (z === undefined) z = this.z\<close>: when the record has no \<open>z\<close>,
  the group keeps the \<open>z\<close> it had.
\<close>

definition updateTransform :: "quaternion \<Rightarrow> presenceRecord \<Rightarrow> playerObject \<Rightarrow> playerObject" where
  "updateTransform cameraQ safe obj =
     (let obj1 = obj\<lparr>objPosition :=
                      (presX safe, presY safe,
                       case presZ safe of
                         None \<Rightarrow> snd (snd (objPosition obj))
                       | Some v \<Rightarrow> Some v)\<rparr>;
          obj2 = (case presQuaternion safe of
                    None \<Rightarrow> obj1
                  | Some q \<Rightarrow> obj1\<lparr>objQuaternion := fromArray q\<rparr>)
      in case nameTagText obj2 of
           None \<Rightarrow> obj2
         | Some drawn \<Rightarrow> obj2\<lparr>nameTagFacing := Some cameraQ\<rparr>)"

text \<open>
  \<open>updatePlayerObject\<close>. \<open>self\<close> is \<open>room.party.client.id\<close>, \<open>cameraQ\<close> the orientation of the
  camera. The argument is the pair \<open>{id, presence}\<close>; a falsy \<open>presence\<close> is \<open>None\<close>, and the
  only falsy \<open>id\<close> there is among strings is the empty one.
\<close>

definition updatePlayerObject ::
  "string \<Rightarrow> quaternion \<Rightarrow> string \<Rightarrow> presenceRecord option \<Rightarrow> syncState \<Rightarrow> syncState" where
  "updatePlayerObject self cameraQ ident presence st =
     (case presence of
        None \<Rightarrow> st
      | Some p \<Rightarrow>
          if ident = [] then st
          else
            (let safe = safePresence p;
                 st1 = (case map_of (playerObjects st) ident of
                          Some obj \<Rightarrow> st
                        | None \<Rightarrow>
                            st\<lparr>playerObjects :=
                                 mapSet ident
                                   (if ident = self then newGroup ident
                                    else newRemoteGroup ident safe)
                                   (playerObjects st),
                               sceneLog := sceneLog st @ [Added ident]\<rparr>)
             in case map_of (playerObjects st1) ident of
                  None \<Rightarrow> st1
                | Some obj \<Rightarrow>
                    st1\<lparr>playerObjects :=
                          mapSet ident
                            (updateTransform cameraQ safe
                               (if ident \<noteq> self then updateNameTag safe obj else obj))
                            (playerObjects st1)\<rparr>))"

definition removePlayerObject :: "string \<Rightarrow> syncState \<Rightarrow> syncState" where
  "removePlayerObject connectionId st =
     (case map_of (playerObjects st) connectionId of
        None \<Rightarrow> st
      | Some obj \<Rightarrow>
          st\<lparr>playerObjects := mapDelete connectionId (playerObjects st),
             sceneLog := sceneLog st @ [Removed connectionId]\<rparr>)"

text \<open>
  A snapshot of the room: the keys in the order of \<open>Object.keys\<close>, each with its record, or
  with \<open>None\<close> when the value stored under the key is falsy. \<open>presenceOf\<close> is \<open>presence[id]\<close>,
  \<open>None\<close> when it is falsy or the key is missing.
\<close>

type_synonym snapshot = "(string \<times> presenceRecord option) list"

definition presenceOf :: "snapshot \<Rightarrow> string \<Rightarrow> presenceRecord option" where
  "presenceOf presence ident = (case map_of presence ident of Some (Some p) \<Rightarrow> Some p | _ \<Rightarrow> None)"

text \<open>The callback of \<open>subscribePresence\<close>: every other player of the snapshot is created or
  updated, then every known player that the snapshot no longer has is removed. The two
  functions below are the bodies of its two loops.\<close>

definition updateStep :: "string \<Rightarrow> quaternion \<Rightarrow> snapshot \<Rightarrow> string \<Rightarrow> syncState \<Rightarrow> syncState" where
  "updateStep self cameraQ presence clientId st =
     (if clientId \<noteq> self \<and> presenceOf presence clientId \<noteq> None
      then updatePlayerObject self cameraQ clientId (presenceOf presence clientId) st
      else st)"

definition removeStep :: "string \<Rightarrow> snapshot \<Rightarrow> string \<Rightarrow> syncState \<Rightarrow> syncState" where
  "removeStep self presence connectionId st =
     (if connectionId \<noteq> self \<and> presenceOf presence connectionId = None
      then removePlayerObject connectionId st
      else st)"

definition presenceCallback :: "string \<Rightarrow> quaternion \<Rightarrow> snapshot \<Rightarrow> syncState \<Rightarrow> syncState" where
  "presenceCallback self cameraQ presence st =
     (let st1 = fold (updateStep self cameraQ presence) (map fst presence) st
      in fold (removeStep self presence) (map fst (playerObjects st1)) st1)"

section \<open>The obstacle generator\<close>

text \<open>
  \<open>MathRandom\<close>: the state is the seed, a call of \<open>random()\<close> returns the fractional part of
  \<open>sin(seed) * 10000\<close> and increments the seed. The generator runs on finite numbers only
  (the seed is a literal), so it is written over the reals.
\<close>

definition random :: "real \<Rightarrow> real \<times> real" where
  "random seed = (let x = sin seed * 10000 in (x - of_int \<lfloor>x\<rfloor>, seed + 1))"

text \<open>The body of the first loop of \<open>createBarriers\<close>: five draws, one wall added.\<close>

definition addBarrier :: "real \<times> sceneChild list \<Rightarrow> real \<times> sceneChild list" where
  "addBarrier rs =
     (let r1 = random (fst rs); width = 1 + fst r1 * 3;
          r2 = random (snd r1); height = 1 + fst r2 * 3;
          r3 = random (snd r2); depth = 1 + fst r3 * 3;
          r4 = random (snd r3); angle = fst r4 * pi * 2;
          r5 = random (snd r4); distance = 5 + fst r5 * 15;
          wall = \<lparr>childPosition =
                    Vector3 (Num (cos angle * distance)) (Num (height / 2)) (Num (sin angle * distance)),
                  geometrySize = Some (Vector3 (Num width) (Num height) (Num depth)),
                  isBlock = False, isBarrier = True\<rparr>
      in (snd r5, snd rs @ [wall]))"

text \<open>The body of the second loop: three draws, one platform added.\<close>

definition addPlatform :: "real \<times> sceneChild list \<Rightarrow> real \<times> sceneChild list" where
  "addPlatform rs =
     (let r1 = random (fst rs); angle = fst r1 * pi * 2;
          r2 = random (snd r1); distance = 5 + fst r2 * 15;
          r3 = random (snd r2);
          platform = \<lparr>childPosition =
                        Vector3 (Num (cos angle * distance)) (Num (1 + fst r3 * 3))
                                (Num (sin angle * distance)),
                      geometrySize = Some (Vector3 (Num 2) (Num (5 / 10)) (Num 2)),
                      isBlock = True, isBarrier = False\<rparr>
      in (snd r3, snd rs @ [platform]))"

text \<open>A counting loop \<open>for (let i = 0; i < n; i++)\<close> whose body does not read \<open>i\<close>.\<close>

fun times_loop :: "nat \<Rightarrow> ('a \<Rightarrow> 'a) \<Rightarrow> 'a \<Rightarrow> 'a" where
  "times_loop 0 body a = a"
| "times_loop (Suc n) body a = times_loop n body (body a)"

text \<open>\<open>createBarriers\<close> with the seed as a parameter, returning the children of the scene;
  the program calls it once, with the seed 12345.\<close>

definition createBarriersSeeded :: "real \<Rightarrow> sceneChild list \<Rightarrow> sceneChild list" where
  "createBarriersSeeded barrierSeed scene =
     snd (times_loop 10 addPlatform (times_loop 15 addBarrier (barrierSeed, scene)))"

definition createBarriers :: "sceneChild list \<Rightarrow> sceneChild list" where
  "createBarriers scene = createBarriersSeeded 12345 scene"

section \<open>Example states\<close>

text \<open>The top face of a block, \<open>block.position.y + blockHeight / 2\<close>.\<close>

definition blockTop :: "sceneChild \<Rightarrow> jsnum" where
  "blockTop block = vecY (childPosition block) + vecY (blockSize block) / Num 2"

text \<open>A desktop player standing at \<open>(0, 0.5, 0)\<close> with the camera at eye height, looking
  along \<open>-z\<close>, and the record of that player in the room.\<close>

definition standingControls :: PlayerControls where
  "standingControls =
     \<lparr>velocityY = Num 0, canJump = True, keysPressed = {}, isMobile = False,
      moveForward = Num 0, moveRight = Num 0, jumpButtonPressed = False,
      playerX = Num 0, playerZ = Num 0,
      cameraPosition = Vector3 (Num 0) (Num (17 / 10)) (Num 0),
      cameraQuaternion = Quaternion (Num 0) (Num 0) (Num 0) (Num 1),
      cameraUp = Vector3 (Num 0) (Num 1) (Num 0),
      orbitTarget = None, jumpSoundPlays = 0\<rparr>"

definition originPresence :: presenceRecord where
  "originPresence =
     \<lparr>presX = Some (Num 0), presY = Some (Num (5 / 10)), presZ = Some (Num 0),
      presQuaternion = Some [Num 0, Num 0, Num 0, Num 1],
      presName = Some ''Player1'', presColor = Some ''hsl(0, 70%, 50%)''\<rparr>"

text \<open>A world without blocks, pointer locked.\<close>

definition emptyWorld :: frameEnv where
  "emptyWorld =
     \<lparr>pointerLocked = True, selfPresence = Some originPresence, sceneChildren = [],
      getWorldDirection = (\<lambda>q. Vector3 (Num 0) (Num 0) (Num (- 1))),
      orbitControlsUpdate = (\<lambda>target pq. pq)\<rparr>"

text \<open>A player in the air, just after a jump.\<close>

definition jumpingControls :: PlayerControls where
  "jumpingControls = standingControls\<lparr>velocityY := JUMP_FORCE, canJump := False\<rparr>"

text \<open>Platforms of the generator's size above the origin, and a player coming down on them
  from the height 1.\<close>

definition platformAt :: "real \<Rightarrow> sceneChild" where
  "platformAt h = \<lparr>childPosition = Vector3 (Num 0) (Num h) (Num 0),
                   geometrySize = Some (Vector3 (Num 2) (Num (5 / 10)) (Num 2)),
                   isBlock = True, isBarrier = False\<rparr>"

definition landingControls :: PlayerControls where
  "landingControls = standingControls\<lparr>velocityY := Num (- 5 / 100), canJump := False,
                      cameraPosition := Vector3 (Num 0) (Num (22 / 10)) (Num 0)\<rparr>"

definition twoPlatforms :: frameEnv where
  "twoPlatforms = emptyWorld\<lparr>selfPresence := Some (originPresence\<lparr>presY := Some (Num 1)\<rparr>),
                            sceneChildren := [platformAt (85 / 100), platformAt (65 / 100)]\<rparr>"

text \<open>A wall long in \<open>x\<close> with a player beside its long side and another at its end, and a
  wall long in \<open>z\<close> with a player beside its long side.\<close>

definition longWall :: sceneChild where
  "longWall = \<lparr>childPosition = Vector3 (Num 0) (Num 1) (Num 0),
                geometrySize = Some (Vector3 (Num 4) (Num 2) (Num 1)),
                isBlock = False, isBarrier = True\<rparr>"

definition besideLongWall :: frameEnv where
  "besideLongWall =
     emptyWorld\<lparr>selfPresence :=
                 Some (originPresence\<lparr>presX := Some (Num 2), presZ := Some (Num (85 / 100))\<rparr>),
               sceneChildren := [longWall]\<rparr>"

definition walkingForward :: PlayerControls where
  "walkingForward = standingControls\<lparr>keysPressed := {''w''},
                      cameraPosition := Vector3 (Num 2) (Num (17 / 10)) (Num (85 / 100))\<rparr>"

definition besideWallEnd :: frameEnv where
  "besideWallEnd =
     emptyWorld\<lparr>selfPresence :=
                 Some (originPresence\<lparr>presX := Some (Num (235 / 100)), presZ := Some (Num (5 / 10))\<rparr>),
               sceneChildren := [longWall]\<rparr>"

definition walkingLeftAtEnd :: PlayerControls where
  "walkingLeftAtEnd = standingControls\<lparr>keysPressed := {''a''},
                        cameraPosition := Vector3 (Num (235 / 100)) (Num (17 / 10)) (Num (5 / 10))\<rparr>"

definition deepWall :: sceneChild where
  "deepWall = \<lparr>childPosition = Vector3 (Num 0) (Num 1) (Num 0),
                geometrySize = Some (Vector3 (Num 1) (Num 2) (Num 4)),
                isBlock = False, isBarrier = True\<rparr>"

definition besideDeepWall :: frameEnv where
  "besideDeepWall =
     emptyWorld\<lparr>selfPresence :=
                 Some (originPresence\<lparr>presX := Some (Num (85 / 100)), presZ := Some (Num 2)\<rparr>),
               sceneChildren := [deepWall]\<rparr>"

definition walkingLeft :: PlayerControls where
  "walkingLeft = standingControls\<lparr>keysPressed := {''a''},
                   cameraPosition := Vector3 (Num (85 / 100)) (Num (17 / 10)) (Num 2)\<rparr>"

text \<open>A platform under the player and a wall far away.\<close>

definition platformAndWall :: frameEnv where
  "platformAndWall =
     emptyWorld\<lparr>selfPresence := Some (originPresence\<lparr>presY := Some (Num 1)\<rparr>),
               sceneChildren :=
                 [platformAt (85 / 100),
                  longWall\<lparr>childPosition := Vector3 (Num 10) (Num 1) (Num 10)\<rparr>]\<rparr>"

text \<open>A mobile player pushing the joystick forward while the camera's orientation is
  broken: every component of the quaternion is \<open>NaN\<close>, and so is the direction that the
  library computes from it.\<close>

definition touchControls :: PlayerControls where
  "touchControls =
     standingControls\<lparr>isMobile := True, moveForward := Num (8 / 100),
                      orbitTarget := Some (Vector3 (Num 0) (Num (17 / 10)) (Num (- 1))),
                      cameraQuaternion := Quaternion NaN NaN NaN NaN\<rparr>"

definition brokenCamera :: frameEnv where
  "brokenCamera =
     emptyWorld\<lparr>pointerLocked := False, getWorldDirection := (\<lambda>q. Vector3 NaN NaN NaN)\<rparr>"

text \<open>The same player falling from the height 2 with a sound camera looking along \<open>-z\<close>.\<close>

definition fallingTouchControls :: PlayerControls where
  "fallingTouchControls =
     standingControls\<lparr>isMobile := True, canJump := False,
                      cameraPosition := Vector3 (Num 0) (Num (32 / 10)) (Num 0),
                      orbitTarget := Some (Vector3 (Num 0) (Num (32 / 10)) (Num (- 1)))\<rparr>"

definition highPresence :: frameEnv where
  "highPresence =
     emptyWorld\<lparr>pointerLocked := False,
               selfPresence := Some (originPresence\<lparr>presY := Some (Num 2)\<rparr>)\<rparr>"

text \<open>The connection ids that have an entry in \<open>playerObjects\<close>, and a run of the
  synchronizer from the empty map over a sequence of callbacks, each with the camera's
  orientation at that moment.\<close>

definition knownIds :: "syncState \<Rightarrow> string set" where
  "knownIds st = fst ` set (playerObjects st)"

definition syncRun :: "string \<Rightarrow> (quaternion \<times> snapshot) list \<Rightarrow> syncState \<Rightarrow> syncState" where
  "syncRun self calls st = fold (\<lambda>call acc. presenceCallback self (fst call) (snd call) acc) calls st"

text \<open>A room seen by the client \<open>A\<close>: snapshots with and without a second player \<open>B\<close>, whose
  record is complete in the first one and has lost its name in the second.\<close>

definition identityQuaternion :: quaternion where
  "identityQuaternion = Quaternion (Num 0) (Num 0) (Num 0) (Num 1)"

definition recordOfB :: presenceRecord where
  "recordOfB =
     \<lparr>presX = Some (Num 3), presY = Some (Num (5 / 10)), presZ = Some (Num (- 2)),
      presQuaternion = Some [Num 0, Num 1, Num 0, Num 0],
      presName = Some ''Bea'', presColor = Some ''hsl(120, 80%, 60%)''\<rparr>"

definition roomWithB :: snapshot where
  "roomWithB = [(''A'', Some originPresence), (''B'', Some recordOfB)]"

definition roomWithNamelessB :: snapshot where
  "roomWithNamelessB = [(''A'', Some originPresence), (''B'', Some (recordOfB\<lparr>presName := None\<rparr>))]"

definition roomWithoutB :: snapshot where
  "roomWithoutB = [(''A'', Some originPresence)]"

text \<open>A desktop player falling towards the ground while the pointer is released.\<close>

definition fallingControls :: PlayerControls where
  "fallingControls = standingControls\<lparr>velocityY := Num (- 2 / 10), canJump := False,
                      cameraPosition := Vector3 (Num 0) (Num (18 / 10)) (Num 0)\<rparr>"

definition releasedWorld :: frameEnv where
  "releasedWorld =
     emptyWorld\<lparr>pointerLocked := False,
               selfPresence := Some (originPresence\<lparr>presY := Some (Num (6 / 10))\<rparr>)\<rparr>"

text \<open>A desktop player standing near the edge of a platform whose top is at 1.1, walking
  off it with \<open>d\<close> held; and the same world one frame later, with the record that the first
  frame sent.\<close>

definition edgeControls :: PlayerControls where
  "edgeControls = standingControls\<lparr>keysPressed := {''d''},
                    cameraPosition := Vector3 (Num (125 / 100)) (Num (231 / 100)) (Num 0)\<rparr>"

definition onPlatformEdge :: frameEnv where
  "onPlatformEdge =
     emptyWorld\<lparr>selfPresence :=
                 Some (originPresence\<lparr>presX := Some (Num (125 / 100)), presY := Some (Num (111 / 100))\<rparr>),
               sceneChildren := [platformAt (85 / 100)]\<rparr>"

definition offPlatformEdge :: frameEnv where
  "offPlatformEdge =
     emptyWorld\<lparr>selfPresence :=
                 Some (originPresence\<lparr>presX := Some (Num (133 / 100)), presY := Some (Num (110 / 100))\<rparr>),
               sceneChildren := [platformAt (85 / 100)]\<rparr>"

text \<open>A mobile player falling from the height 2 with the joystick at rest, while the
  camera's orientation is broken.\<close>

definition fallingBrokenControls :: PlayerControls where
  "fallingBrokenControls = fallingTouchControls\<lparr>cameraQuaternion := Quaternion NaN NaN NaN NaN\<rparr>"

definition highBrokenCamera :: frameEnv where
  "highBrokenCamera = highPresence\<lparr>getWorldDirection := (\<lambda>q. Vector3 NaN NaN NaN)\<rparr>"


section \<open>Properties of a frame\<close>

lemmas vec_defs = vlength_def multiplyScalar_def divideScalar_def normalize_def vadd_def
  addScaledVector_def crossVectors_def setY_def zeroVector_def

lemmas frame_defs = processMovement_def resolvePosition_def afterBlocks_def runBlocks_def
  storedPresence_def frameY_def positionChanged_def movementVector_def moveDirection_def
  keyboardDirection_def blockMeshes_def startLocals_def groundCheck_def commitPosition_def
  updateOrbitControls_def newOrbitTarget_def guardDirection_def collideBlock_def
  standingTest_def horizontalTest_def blockSize_def GRAVITY_def SPEED_def JUMP_FORCE_def
  playerRadius_def playerHeight_def emptyPresence_def blockTop_def

lemmas example_defs = standingControls_def originPresence_def emptyWorld_def jumpingControls_def
  platformAt_def landingControls_def twoPlatforms_def longWall_def besideLongWall_def
  walkingForward_def deepWall_def besideDeepWall_def walkingLeft_def platformAndWall_def
  touchControls_def brokenCamera_def fallingTouchControls_def highPresence_def
  besideWallEnd_def walkingLeftAtEnd_def fallingControls_def releasedWorld_def edgeControls_def
  onPlatformEdge_def offPlatformEdge_def fallingBrokenControls_def highBrokenCamera_def

subsection \<open>The loop over the blocks\<close>

lemma forEachBlock_append:
  "forEachBlock cam mv y (xs @ ys) sl = forEachBlock cam mv y ys (forEachBlock cam mv y xs sl)"
  by (induction xs arbitrary: sl) simp_all

lemma runBlocks_append:
  "runBlocks env s (xs @ ys) =
   forEachBlock (cameraPosition s) (movementVector env s) (frameY env) ys (runBlocks env s xs)"
  by (simp add: runBlocks_def Let_def forEachBlock_append)

lemma collideBlock_standing:
  "standingTest y b (fst sl) (snd sl) \<Longrightarrow>
   collideBlock cam mv y b sl =
     ((fst sl)\<lparr>velocityY := Num 0, canJump := True\<rparr>,
      (snd sl)\<lparr>standingOnBlock := True,
               newY := vecY (childPosition b) + vecY (blockSize b) / Num 2 + Num (1 / 100)\<rparr>)"
  by (simp add: collideBlock_def Let_def)

text \<open>Once a block has been stood on, the rest of the loop keeps the avatar grounded.\<close>

lemma collideBlock_grounded:
  "velocityY (fst sl) = Num 0 \<and> canJump (fst sl) \<and> standingOnBlock (snd sl) \<Longrightarrow>
   velocityY (fst (collideBlock cam mv y b sl)) = Num 0 \<and>
   canJump (fst (collideBlock cam mv y b sl)) \<and>
   standingOnBlock (snd (collideBlock cam mv y b sl))"
  by (simp add: collideBlock_def Let_def)

lemma forEachBlock_grounded:
  "velocityY (fst sl) = Num 0 \<and> canJump (fst sl) \<and> standingOnBlock (snd sl) \<Longrightarrow>
   velocityY (fst (forEachBlock cam mv y bs sl)) = Num 0 \<and>
   canJump (fst (forEachBlock cam mv y bs sl)) \<and>
   standingOnBlock (snd (forEachBlock cam mv y bs sl))"
proof (induction bs arbitrary: sl)
  case Nil
  then show ?case by simp
next
  case (Cons b bs)
  from collideBlock_grounded [OF Cons.prems] Cons.IH show ?case by simp
qed

text \<open>Only the standing branch writes \<open>newY\<close>.\<close>

lemma collideBlock_newY:
  "\<not> standingTest y b (fst sl) (snd sl) \<Longrightarrow>
   newY (snd (collideBlock cam mv y b sl)) = newY (snd sl)"
  by (simp add: collideBlock_def Let_def)

lemma forEachBlock_newY:
  "(\<And>k. k < length bs \<Longrightarrow>
      \<not> standingTest y (bs ! k) (fst (forEachBlock cam mv y (take k bs) sl))
                               (snd (forEachBlock cam mv y (take k bs) sl))) \<Longrightarrow>
   newY (snd (forEachBlock cam mv y bs sl)) = newY (snd sl)"
proof (induction bs arbitrary: sl)
  case Nil
  then show ?case by simp
next
  case (Cons b bs)
  from Cons.prems [of 0] have first: "\<not> standingTest y b (fst sl) (snd sl)" by simp
  have rest: "\<not> standingTest y (bs ! k)
      (fst (forEachBlock cam mv y (take k bs) (collideBlock cam mv y b sl)))
      (snd (forEachBlock cam mv y (take k bs) (collideBlock cam mv y b sl)))"
    if "k < length bs" for k
    using Cons.prems [of "Suc k"] that by simp
  from Cons.IH [of "collideBlock cam mv y b sl"] rest
  have "newY (snd (forEachBlock cam mv y bs (collideBlock cam mv y b sl))) =
        newY (snd (collideBlock cam mv y b sl))"
    by blast
  with first show ?case by (simp add: collideBlock_newY)
qed

text \<open>The flag \<open>standingOnBlock\<close> is only ever raised: when it is down after the loop, no
  block was stood on, and height, velocity and jump flag are those the loop started with.\<close>

lemma collideBlock_no_support:
  "\<not> standingOnBlock (snd (collideBlock cam mv y b sl)) \<Longrightarrow>
   \<not> standingOnBlock (snd sl) \<and> \<not> standingTest y b (fst sl) (snd sl) \<and>
   newY (snd (collideBlock cam mv y b sl)) = newY (snd sl) \<and>
   velocityY (fst (collideBlock cam mv y b sl)) = velocityY (fst sl) \<and>
   canJump (fst (collideBlock cam mv y b sl)) = canJump (fst sl)"
  by (auto simp: collideBlock_def Let_def split: if_splits)

lemma forEachBlock_no_support:
  "\<not> standingOnBlock (snd (forEachBlock cam mv y bs sl)) \<Longrightarrow>
   \<not> standingOnBlock (snd sl) \<and>
   newY (snd (forEachBlock cam mv y bs sl)) = newY (snd sl) \<and>
   velocityY (fst (forEachBlock cam mv y bs sl)) = velocityY (fst sl) \<and>
   canJump (fst (forEachBlock cam mv y bs sl)) = canJump (fst sl)"
proof (induction bs arbitrary: sl)
  case Nil
  then show ?case by simp
next
  case (Cons b bs)
  from Cons.prems
  have "\<not> standingOnBlock (snd (forEachBlock cam mv y bs (collideBlock cam mv y b sl)))"
    by simp
  from Cons.IH [OF this] collideBlock_no_support [of cam mv y b sl]
  show ?case by simp
qed

text \<open>The loop and the ground check write the vertical velocity and the jump flag of the
  controls object and nothing else.\<close>

lemma collideBlock_fields:
  "\<exists>v c. fst (collideBlock cam mv y b sl) = (fst sl)\<lparr>velocityY := v, canJump := c\<rparr>"
proof (cases "standingTest y b (fst sl) (snd sl)")
  case True
  then show ?thesis by (simp add: collideBlock_standing) blast
next
  case False
  have "fst (collideBlock cam mv y b sl) = fst sl"
    using False by (simp add: collideBlock_def Let_def)
  then have "fst (collideBlock cam mv y b sl) =
      (fst sl)\<lparr>velocityY := velocityY (fst sl), canJump := canJump (fst sl)\<rparr>"
    by simp
  then show ?thesis by blast
qed

lemma forEachBlock_fields:
  "\<exists>v c. fst (forEachBlock cam mv y bs sl) = (fst sl)\<lparr>velocityY := v, canJump := c\<rparr>"
proof (induction bs arbitrary: sl)
  case Nil
  show ?case
    by (rule exI [of _ "velocityY (fst sl)"], rule exI [of _ "canJump (fst sl)"]) simp
next
  case (Cons b bs)
  obtain v c where one: "fst (collideBlock cam mv y b sl) = (fst sl)\<lparr>velocityY := v, canJump := c\<rparr>"
    using collideBlock_fields by blast
  obtain v' c' where "fst (forEachBlock cam mv y bs (collideBlock cam mv y b sl)) =
      (fst (collideBlock cam mv y b sl))\<lparr>velocityY := v', canJump := c'\<rparr>"
    using Cons.IH by blast
  then have "fst (forEachBlock cam mv y (b # bs) sl) = (fst sl)\<lparr>velocityY := v', canJump := c'\<rparr>"
    by (simp add: one)
  then show ?case by blast
qed

lemma resolvePosition_fields:
  "\<exists>v c. fst (resolvePosition env s) = s\<lparr>velocityY := v, canJump := c\<rparr>"
proof -
  obtain v c where "fst (afterBlocks env s) = s\<lparr>velocityY := v, canJump := c\<rparr>"
    using forEachBlock_fields
      [of "cameraPosition s" "movementVector env s" "frameY env" "blockMeshes env"
          "(s\<lparr>velocityY := velocityY s - GRAVITY\<rparr>,
            startLocals (frameY env) (movementVector env s) (s\<lparr>velocityY := velocityY s - GRAVITY\<rparr>))"]
    by (auto simp: afterBlocks_def runBlocks_def Let_def)
  then have "fst (resolvePosition env s) = s\<lparr>velocityY := v, canJump := c\<rparr> \<or>
             fst (resolvePosition env s) = s\<lparr>velocityY := Num 0, canJump := True\<rparr>"
    by (simp add: resolvePosition_def groundCheck_def Let_def)
  then show ?thesis by blast
qed

subsection \<open>Ground check and commit\<close>

lemma groundCheck_supported:
  "standingOnBlock (snd sl) \<Longrightarrow> groundCheck sl = sl"
  by (simp add: groundCheck_def Let_def)

lemma commitPosition_keeps:
  "velocityY (fst (commitPosition env p s l)) = velocityY s \<and>
   canJump (fst (commitPosition env p s l)) = canJump s \<and>
   keysPressed (fst (commitPosition env p s l)) = keysPressed s"
  by (simp add: commitPosition_def updateOrbitControls_def Let_def split: option.splits prod.splits)

lemma processMovement_open:
  "isMobile s \<or> pointerLocked env \<Longrightarrow>
   processMovement env s =
     commitPosition env (storedPresence env) (fst (resolvePosition env s)) (snd (resolvePosition env s))"
  by (auto simp: processMovement_def Let_def)

subsection \<open>Standing on a block\<close>

text \<open>
  Claim C1, as amended. In a frame in which the movement is processed (on mobile, or with
  the pointer locked), let a block of the scene pass the standing test when the loop
  reaches it: the vertical velocity (gravity
  applied, or zeroed by an earlier block) is at most 0, the candidate \<open>x\<close> and \<open>z\<close> lie within
  the block's footprint widened by the radius 0.3, the height \<open>y\<close> read at the start of the
  frame is within 0.2 of the block's top and not below the block's centre. Then the loop
  sets the new height to the block's top plus 0.01; at the end of the frame the vertical
  velocity is exactly 0 and jumping is allowed; and the height the frame settles on is the
  block's top plus 0.01 when no later block of the scene passes the standing test in its
  turn.
\<close>

theorem standing_on_block:
  assumes active: "isMobile s \<or> pointerLocked env"
    and blocks: "blockMeshes env = before @ block # after"
    and test: "standingTest (frameY env) block
                 (fst (runBlocks env s before)) (snd (runBlocks env s before))"
  shows "newY (snd (runBlocks env s (before @ [block]))) = blockTop block + Num (1 / 100) \<and>
         velocityY (fst (processMovement env s)) = Num 0 \<and>
         canJump (fst (processMovement env s)) \<and>
         ((\<forall>k < length after.
             \<not> standingTest (frameY env) (after ! k)
                 (fst (runBlocks env s (before @ block # take k after)))
                 (snd (runBlocks env s (before @ block # take k after)))) \<longrightarrow>
          newY (snd (resolvePosition env s)) = blockTop block + Num (1 / 100))"
proof -
  let ?cam = "cameraPosition s" and ?mv = "movementVector env s" and ?y = "frameY env"
  let ?mid = "runBlocks env s before"
  let ?hit = "collideBlock ?cam ?mv ?y block ?mid"
  have hit: "runBlocks env s (before @ [block]) = ?hit"
    by (simp add: runBlocks_append)
  have hit_eq: "?hit = ((fst ?mid)\<lparr>velocityY := Num 0, canJump := True\<rparr>,
      (snd ?mid)\<lparr>standingOnBlock := True, newY := blockTop block + Num (1 / 100)\<rparr>)"
    using collideBlock_standing [OF test] by (simp add: blockTop_def)
  have all: "afterBlocks env s = forEachBlock ?cam ?mv ?y after ?hit"
    by (simp add: afterBlocks_def blocks runBlocks_append)
  have grounded: "velocityY (fst (afterBlocks env s)) = Num 0 \<and> canJump (fst (afterBlocks env s)) \<and>
      standingOnBlock (snd (afterBlocks env s))"
    unfolding all by (rule forEachBlock_grounded) (simp add: hit_eq)
  then have res: "resolvePosition env s = afterBlocks env s"
    by (simp add: resolvePosition_def groundCheck_supported)
  have c1: "newY (snd (runBlocks env s (before @ [block]))) = blockTop block + Num (1 / 100)"
    by (simp add: hit hit_eq)
  have c2: "velocityY (fst (processMovement env s)) = Num 0 \<and> canJump (fst (processMovement env s))"
    using grounded by (simp add: processMovement_open [OF active] commitPosition_keeps res)
  have c3: "newY (snd (resolvePosition env s)) = blockTop block + Num (1 / 100)"
    if later: "\<forall>k < length after.
             \<not> standingTest (frameY env) (after ! k)
                 (fst (runBlocks env s (before @ block # take k after)))
                 (snd (runBlocks env s (before @ block # take k after)))"
  proof -
    have step: "runBlocks env s (before @ block # take k after) =
        forEachBlock ?cam ?mv ?y (take k after) ?hit" for k
      using runBlocks_append [of env s before "block # take k after"] by simp
    have "newY (snd (forEachBlock ?cam ?mv ?y after ?hit)) = newY (snd ?hit)"
      by (rule forEachBlock_newY) (use later step in simp)
    then show ?thesis by (simp add: res all hit_eq)
  qed
  from c1 c2 c3 show ?thesis by blast
qed

text \<open>The amended claim at work: the player comes down on a platform whose top is at 1.1,
  a wall stands far away and is tested after the platform.\<close>

theorem standing_on_block_witness:
  "(isMobile landingControls \<or> pointerLocked platformAndWall) \<and>
   blockMeshes platformAndWall =
     [] @ platformAt (85 / 100) # [longWall\<lparr>childPosition := Vector3 (Num 10) (Num 1) (Num 10)\<rparr>] \<and>
   standingTest (frameY platformAndWall) (platformAt (85 / 100))
     (fst (runBlocks platformAndWall landingControls []))
     (snd (runBlocks platformAndWall landingControls [])) \<and>
   velocityY (fst (processMovement platformAndWall landingControls)) = Num 0 \<and>
   canJump (fst (processMovement platformAndWall landingControls)) \<and>
   newY (snd (resolvePosition platformAndWall landingControls)) = Num (111 / 100)"
proof -
  let ?wall = "longWall\<lparr>childPosition := Vector3 (Num 10) (Num 1) (Num 10)\<rparr>"
  have g: "isMobile landingControls \<or> pointerLocked platformAndWall"
    by (simp add: example_defs)
  have b: "blockMeshes platformAndWall = [] @ platformAt (85 / 100) # [?wall]"
    by (simp add: blockMeshes_def example_defs)
  have t: "standingTest (frameY platformAndWall) (platformAt (85 / 100))
     (fst (runBlocks platformAndWall landingControls []))
     (snd (runBlocks platformAndWall landingControls []))"
    by (simp add: frame_defs vec_defs example_defs Let_def)
  have later: "\<forall>k < length [?wall].
      \<not> standingTest (frameY platformAndWall) ([?wall] ! k)
          (fst (runBlocks platformAndWall landingControls ([] @ platformAt (85 / 100) # take k [?wall])))
          (snd (runBlocks platformAndWall landingControls ([] @ platformAt (85 / 100) # take k [?wall])))"
    by (simp add: frame_defs vec_defs example_defs Let_def)
  have top: "blockTop (platformAt (85 / 100)) + Num (1 / 100) = Num (111 / 100)"
    by (simp add: blockTop_def blockSize_def platformAt_def)
  from standing_on_block [OF g b t] later top g b t show ?thesis by simp
qed

text \<open>
  The claim as stated fails when two blocks pass the standing test in one frame: the
  later block of the scene overwrites the height. Two platforms overlap above the origin,
  with tops at 1.1 and 0.9; the player comes down from the height 1, and every condition
  of the claim holds for the first platform, yet the frame settles on 0.91, not on 1.11.
\<close>

theorem standing_on_block_counterexample:
  "blockMeshes twoPlatforms = [platformAt (85 / 100), platformAt (65 / 100)] \<and>
   velocityY (fst (runBlocks twoPlatforms landingControls [])) \<le> Num 0 \<and>
   standingTest (frameY twoPlatforms) (platformAt (85 / 100))
     (fst (runBlocks twoPlatforms landingControls []))
     (snd (runBlocks twoPlatforms landingControls [])) \<and>
   blockTop (platformAt (85 / 100)) + Num (1 / 100) = Num (111 / 100) \<and>
   newY (snd (resolvePosition twoPlatforms landingControls)) = Num (91 / 100) \<and>
   newY (snd (resolvePosition twoPlatforms landingControls))
     \<noteq> blockTop (platformAt (85 / 100)) + Num (1 / 100)"
  by (simp add: frame_defs vec_defs example_defs Let_def)

subsection \<open>Gravity and the ground\<close>

text \<open>
  Claim C2, as amended. In a frame in which the movement is processed (on mobile, or with
  the pointer locked) and in which no block supports the avatar (the flag \<open>standingOnBlock\<close> is down after the loop), gravity is subtracted from
  the vertical velocity whatever the jump flag says, and the candidate height is the
  height read at the start of the frame plus that velocity. If the candidate height is at
  most 0.5, the frame settles on exactly 0.5, with vertical velocity exactly 0 and
  jumping allowed; otherwise it settles on the candidate height, with the velocity that
  gravity left and the jump flag untouched.
\<close>

theorem ground_clamp:
  assumes active: "isMobile s \<or> pointerLocked env"
    and unsupported: "\<not> standingOnBlock (snd (afterBlocks env s))"
  shows "(frameY env + (velocityY s - GRAVITY) \<le> Num (5 / 10) \<longrightarrow>
            newY (snd (resolvePosition env s)) = Num (5 / 10) \<and>
            velocityY (fst (processMovement env s)) = Num 0 \<and>
            canJump (fst (processMovement env s))) \<and>
         (\<not> frameY env + (velocityY s - GRAVITY) \<le> Num (5 / 10) \<longrightarrow>
            newY (snd (resolvePosition env s)) = frameY env + (velocityY s - GRAVITY) \<and>
            velocityY (fst (processMovement env s)) = velocityY s - GRAVITY \<and>
            canJump (fst (processMovement env s)) = canJump s)"
proof -
  let ?s1 = "s\<lparr>velocityY := velocityY s - GRAVITY\<rparr>"
  let ?l0 = "startLocals (frameY env) (movementVector env s) ?s1"
  have ab: "afterBlocks env s =
      forEachBlock (cameraPosition ?s1) (movementVector env s) (frameY env) (blockMeshes env) (?s1, ?l0)"
    by (simp add: afterBlocks_def runBlocks_def Let_def)
  from unsupported forEachBlock_no_support
    [of "cameraPosition ?s1" "movementVector env s" "frameY env" "blockMeshes env" "(?s1, ?l0)"]
  have keep: "newY (snd (afterBlocks env s)) = frameY env + (velocityY s - GRAVITY)"
    "velocityY (fst (afterBlocks env s)) = velocityY s - GRAVITY"
    "canJump (fst (afterBlocks env s)) = canJump s"
    by (simp_all add: ab startLocals_def)
  show ?thesis
    using keep unsupported
    by (simp add: processMovement_open [OF active] commitPosition_keeps resolvePosition_def
          groundCheck_def Let_def)
qed

text \<open>Two frames without support. The player standing at \<open>(0, 0.5, 0)\<close> with zero velocity
  and no key held: the candidate height is 0.49, the frame ends at 0.5 and changes
  nothing. The player who has just jumped: the frame ends at 0.74 with velocity 0.24.\<close>

theorem ground_clamp_witness:
  "(isMobile standingControls \<or> pointerLocked emptyWorld) \<and>
   \<not> standingOnBlock (snd (afterBlocks emptyWorld standingControls)) \<and>
   frameY emptyWorld + (velocityY standingControls - GRAVITY) = Num (49 / 100) \<and>
   newY (snd (resolvePosition emptyWorld standingControls)) = Num (5 / 10) \<and>
   velocityY (fst (processMovement emptyWorld standingControls)) = Num 0 \<and>
   canJump (fst (processMovement emptyWorld standingControls)) \<and>
   processMovement emptyWorld standingControls = (standingControls, None) \<and>
   \<not> standingOnBlock (snd (afterBlocks besideLongWall jumpingControls)) \<and>
   newY (snd (resolvePosition besideLongWall jumpingControls)) = Num (74 / 100) \<and>
   velocityY (fst (processMovement besideLongWall jumpingControls)) = Num (24 / 100) \<and>
   \<not> canJump (fst (processMovement besideLongWall jumpingControls))"
proof -
  have g: "isMobile standingControls \<or> pointerLocked emptyWorld"
    by (simp add: example_defs)
  have u: "\<not> standingOnBlock (snd (afterBlocks emptyWorld standingControls))"
    by (simp add: frame_defs vec_defs example_defs Let_def)
  have c: "frameY emptyWorld + (velocityY standingControls - GRAVITY) = Num (49 / 100)"
    by (simp add: frame_defs example_defs)
  have e: "processMovement emptyWorld standingControls = (standingControls, None)"
    by (simp add: frame_defs vec_defs example_defs Let_def)
  have g': "isMobile jumpingControls \<or> pointerLocked besideLongWall"
    by (simp add: example_defs)
  have u': "\<not> standingOnBlock (snd (afterBlocks besideLongWall jumpingControls))"
    by (simp add: frame_defs vec_defs example_defs Let_def)
  have c': "frameY besideLongWall + (velocityY jumpingControls - GRAVITY) = Num (74 / 100)"
    "velocityY jumpingControls - GRAVITY = Num (24 / 100)" "\<not> canJump jumpingControls"
    by (simp_all add: frame_defs example_defs)
  from ground_clamp [OF g u] ground_clamp [OF g' u'] c c' g u u' e show ?thesis by simp
qed

text \<open>
  The claim as stated speaks of every frame, and fails on desktop while the pointer is
  released: there \<open>processMovement\<close> returns before gravity is applied. No block supports
  the falling player, whose candidate height would be 0.39; the frame leaves the velocity
  at -0.2 and the jump flag down, and settles nothing.
\<close>

theorem ground_clamp_counterexample:
  "\<not> isMobile fallingControls \<and> \<not> pointerLocked releasedWorld \<and>
   \<not> standingOnBlock (snd (afterBlocks releasedWorld fallingControls)) \<and>
   frameY releasedWorld + (velocityY fallingControls - GRAVITY) = Num (39 / 100) \<and>
   frameY releasedWorld + (velocityY fallingControls - GRAVITY) \<le> Num (5 / 10) \<and>
   processMovement releasedWorld fallingControls = (fallingControls, None) \<and>
   velocityY (fst (processMovement releasedWorld fallingControls)) = Num (- 2 / 10) \<and>
   velocityY (fst (processMovement releasedWorld fallingControls)) \<noteq> Num 0 \<and>
   \<not> canJump (fst (processMovement releasedWorld fallingControls))"
  by (simp add: frame_defs vec_defs example_defs Let_def)

subsection \<open>Horizontal collision\<close>

text \<open>
  Claim C3, as amended. Let the standing test fail for a block when the loop reaches it,
  while the candidate position lies within the block's footprint widened by the radius 0.3
  and the candidate height range meets the block's vertical extent. If the camera's
  distance from the block's centre is strictly larger along \<open>x\<close> than along \<open>z\<close> and the
  movement has a non-zero \<open>x\<close> component, the loop resets the candidate \<open>x\<close> to the camera's
  \<open>x\<close> and leaves \<open>z\<close> as it was. Otherwise, if the movement has a non-zero \<open>z\<close> component, it
  resets the candidate \<open>z\<close> to the camera's \<open>z\<close> and leaves \<open>x\<close> as it was. Nothing else of
  the frame's state changes at that block.
\<close>

theorem horizontal_collision:
  assumes nostand: "\<not> standingTest (frameY env) block
                       (fst (runBlocks env s before)) (snd (runBlocks env s before))"
    and overlap: "horizontalTest block (snd (runBlocks env s before))"
  shows "(\<bar>vecX (cameraPosition s) - vecX (childPosition block)\<bar>
            > \<bar>vecZ (cameraPosition s) - vecZ (childPosition block)\<bar> \<and>
          \<bar>vecX (movementVector env s)\<bar> > Num 0 \<longrightarrow>
            runBlocks env s (before @ [block]) =
              (fst (runBlocks env s before),
               (snd (runBlocks env s before))\<lparr>newX := vecX (cameraPosition s)\<rparr>)) \<and>
         (\<not> (\<bar>vecX (cameraPosition s) - vecX (childPosition block)\<bar>
               > \<bar>vecZ (cameraPosition s) - vecZ (childPosition block)\<bar> \<and>
             \<bar>vecX (movementVector env s)\<bar> > Num 0) \<and>
          \<bar>vecZ (movementVector env s)\<bar> > Num 0 \<longrightarrow>
            runBlocks env s (before @ [block]) =
              (fst (runBlocks env s before),
               (snd (runBlocks env s before))\<lparr>newZ := vecZ (cameraPosition s)\<rparr>))"
  using nostand overlap
  by (simp add: runBlocks_append collideBlock_def Let_def)

text \<open>The player beside the long side of a wall walks straight into it along \<open>z\<close>: the
  candidate \<open>z\<close> goes back from 0.77 to the camera's 0.85, the candidate \<open>x\<close> stays. The
  player at the end of the wall walks into it along \<open>x\<close>: the candidate \<open>x\<close> goes back from
  2.27 to the camera's 2.35.\<close>

theorem horizontal_collision_witness:
  "\<not> standingTest (frameY besideLongWall) longWall
       (fst (runBlocks besideLongWall walkingForward []))
       (snd (runBlocks besideLongWall walkingForward [])) \<and>
   horizontalTest longWall (snd (runBlocks besideLongWall walkingForward [])) \<and>
   \<bar>vecZ (movementVector besideLongWall walkingForward)\<bar> > Num 0 \<and>
   newZ (snd (runBlocks besideLongWall walkingForward [])) = Num (77 / 100) \<and>
   runBlocks besideLongWall walkingForward ([] @ [longWall]) =
     (fst (runBlocks besideLongWall walkingForward []),
      (snd (runBlocks besideLongWall walkingForward []))\<lparr>newZ := Num (85 / 100)\<rparr>) \<and>
   \<not> standingTest (frameY besideWallEnd) longWall
       (fst (runBlocks besideWallEnd walkingLeftAtEnd []))
       (snd (runBlocks besideWallEnd walkingLeftAtEnd [])) \<and>
   horizontalTest longWall (snd (runBlocks besideWallEnd walkingLeftAtEnd [])) \<and>
   \<bar>vecX (movementVector besideWallEnd walkingLeftAtEnd)\<bar> > Num 0 \<and>
   newX (snd (runBlocks besideWallEnd walkingLeftAtEnd [])) = Num (227 / 100) \<and>
   runBlocks besideWallEnd walkingLeftAtEnd ([] @ [longWall]) =
     (fst (runBlocks besideWallEnd walkingLeftAtEnd []),
      (snd (runBlocks besideWallEnd walkingLeftAtEnd []))\<lparr>newX := Num (235 / 100)\<rparr>)"
proof -
  have n: "\<not> standingTest (frameY besideLongWall) longWall
       (fst (runBlocks besideLongWall walkingForward []))
       (snd (runBlocks besideLongWall walkingForward []))"
    by (simp add: frame_defs vec_defs example_defs Let_def)
  have h: "horizontalTest longWall (snd (runBlocks besideLongWall walkingForward []))"
    by (simp add: frame_defs vec_defs example_defs Let_def)
  have m: "movementVector besideLongWall walkingForward = Vector3 (Num 0) (Num 0) (Num (- 8 / 100))"
    by (simp add: frame_defs vec_defs example_defs Let_def)
  have z: "newZ (snd (runBlocks besideLongWall walkingForward [])) = Num (77 / 100)"
    by (simp add: frame_defs vec_defs example_defs Let_def)
  have c: "cameraPosition walkingForward = Vector3 (Num 2) (Num (17 / 10)) (Num (85 / 100))"
    by (simp add: example_defs)
  have n': "\<not> standingTest (frameY besideWallEnd) longWall
       (fst (runBlocks besideWallEnd walkingLeftAtEnd []))
       (snd (runBlocks besideWallEnd walkingLeftAtEnd []))"
    by (simp add: frame_defs vec_defs example_defs Let_def)
  have h': "horizontalTest longWall (snd (runBlocks besideWallEnd walkingLeftAtEnd []))"
    by (simp add: frame_defs vec_defs example_defs Let_def)
  have m': "movementVector besideWallEnd walkingLeftAtEnd = Vector3 (Num (- 8 / 100)) (Num 0) (Num 0)"
    by (simp add: frame_defs vec_defs example_defs Let_def)
  have x': "newX (snd (runBlocks besideWallEnd walkingLeftAtEnd [])) = Num (227 / 100)"
    by (simp add: frame_defs vec_defs example_defs Let_def)
  have c': "cameraPosition walkingLeftAtEnd = Vector3 (Num (235 / 100)) (Num (17 / 10)) (Num (5 / 10))"
    "childPosition longWall = Vector3 (Num 0) (Num 1) (Num 0)"
    by (simp_all add: example_defs)
  from horizontal_collision [OF n h] horizontal_collision [OF n' h'] n h m z c n' h' m' x' c'
  show ?thesis by simp
qed

text \<open>
  The claim as stated names the axis with the larger distance from the block's centre.
  Beside the long side of the wall the camera is 2 away from the centre along \<open>x\<close> and 0.85
  along \<open>z\<close>, and the player walks along \<open>z\<close> only: the axis that is reset is \<open>z\<close>, the one with
  the smaller distance, and its movement is not kept.
\<close>

theorem horizontal_collision_counterexample:
  "blockMeshes besideLongWall = [longWall] \<and>
   movementVector besideLongWall walkingForward = Vector3 (Num 0) (Num 0) (Num (- 8 / 100)) \<and>
   \<not> standingTest (frameY besideLongWall) longWall
       (fst (runBlocks besideLongWall walkingForward []))
       (snd (runBlocks besideLongWall walkingForward [])) \<and>
   horizontalTest longWall (snd (runBlocks besideLongWall walkingForward [])) \<and>
   \<bar>vecX (cameraPosition walkingForward) - vecX (childPosition longWall)\<bar>
      > \<bar>vecZ (cameraPosition walkingForward) - vecZ (childPosition longWall)\<bar> \<and>
   newZ (snd (runBlocks besideLongWall walkingForward [])) = Num (77 / 100) \<and>
   newZ (snd (runBlocks besideLongWall walkingForward [longWall])) = Num (85 / 100) \<and>
   newZ (snd (resolvePosition besideLongWall walkingForward)) = vecZ (cameraPosition walkingForward)"
  by (simp add: frame_defs vec_defs example_defs Let_def)

text \<open>The remaining case: the distance along \<open>z\<close> is the larger one and the player walks
  along \<open>x\<close> only, into the long side of a wall that is long in \<open>z\<close>. Neither axis is reset,
  and the frame settles inside the widened footprint.\<close>

lemma horizontal_collision_unreverted:
  "blockMeshes besideDeepWall = [deepWall] \<and>
   movementVector besideDeepWall walkingLeft = Vector3 (Num (- 8 / 100)) (Num 0) (Num 0) \<and>
   \<not> standingTest (frameY besideDeepWall) deepWall
       (fst (runBlocks besideDeepWall walkingLeft [])) (snd (runBlocks besideDeepWall walkingLeft [])) \<and>
   horizontalTest deepWall (snd (runBlocks besideDeepWall walkingLeft [])) \<and>
   runBlocks besideDeepWall walkingLeft [deepWall] = runBlocks besideDeepWall walkingLeft [] \<and>
   newX (snd (resolvePosition besideDeepWall walkingLeft)) = Num (77 / 100)"
  by (simp add: frame_defs vec_defs example_defs Let_def)

subsection \<open>Jumping\<close>

text \<open>
  Claim C4, as amended. A jump request is the space bar going down (desktop) or a touch
  starting on the jump button (mobile). While jumping is allowed (the flag \<open>canJump\<close> is
  up), the request sets the vertical velocity to exactly \<open>JUMP_FORCE\<close>, takes the flag down
  and plays the jump sound once. While jumping is not allowed, the request leaves the
  velocity, the flag, the camera and every other field of the avatar as they were: the
  only thing the listeners still do is their input bookkeeping, which is to record the
  space bar among the held keys, or the button as pressed.
\<close>

theorem jump_request:
  "(canJump s \<longrightarrow>
      keydown '' '' s =
        s\<lparr>keysPressed := insert '' '' (keysPressed s), velocityY := JUMP_FORCE,
          canJump := False, jumpSoundPlays := Suc (jumpSoundPlays s)\<rparr> \<and>
      jumpTouchStart s =
        s\<lparr>jumpButtonPressed := True, velocityY := JUMP_FORCE,
          canJump := False, jumpSoundPlays := Suc (jumpSoundPlays s)\<rparr>) \<and>
   (\<not> canJump s \<longrightarrow>
      keydown '' '' s = s\<lparr>keysPressed := insert '' '' (keysPressed s)\<rparr> \<and>
      jumpTouchStart s = s\<lparr>jumpButtonPressed := True\<rparr>)"
  by (simp add: keydown_def jumpTouchStart_def toLowerCase_def toLowerChar_def Let_def)

text \<open>A jump from the ground, and a second request in the air.\<close>

theorem jump_request_witness:
  "canJump standingControls \<and>
   velocityY (keydown '' '' standingControls) = Num (25 / 100) \<and>
   \<not> canJump (keydown '' '' standingControls) \<and>
   velocityY (jumpTouchStart standingControls) = Num (25 / 100) \<and>
   \<not> canJump (jumpTouchStart standingControls) \<and>
   \<not> canJump jumpingControls \<and>
   keydown '' '' jumpingControls = jumpingControls\<lparr>keysPressed := {'' ''}\<rparr> \<and>
   velocityY (keydown '' '' (keydown '' '' standingControls)) = Num (25 / 100) \<and>
   jumpSoundPlays (keydown '' '' (keydown '' '' standingControls)) = 1 \<and>
   jumpTouchStart jumpingControls = jumpingControls\<lparr>jumpButtonPressed := True\<rparr>"
proof -
  have a: "canJump standingControls" "\<not> canJump jumpingControls"
    "\<not> canJump (keydown '' '' standingControls)"
    by (simp_all add: example_defs keydown_def Let_def)
  have k: "keysPressed jumpingControls = {}" "jumpSoundPlays standingControls = 0"
    "keysPressed standingControls = {}"
    by (simp_all add: example_defs)
  from jump_request [of standingControls] jump_request [of jumpingControls]
    jump_request [of "keydown '' '' standingControls"] a k
  show ?thesis by (simp add: JUMP_FORCE_def)
qed

text \<open>
  The claim as stated speaks of the avatar being grounded or airborne, and fails for an
  avatar that leaves a surface without jumping: the flag is taken down by a jump only.
  The player walks off the edge of a platform; after two frames it is falling (height
  1.08, below the platform's top, outside its footprint, no block under it, velocity
  -0.02) with the flag still up, and a jump request in the air sets the velocity to 0.25.
\<close>

theorem jump_request_counterexample:
  "snd (resolvePosition onPlatformEdge edgeControls) =
     \<lparr>newX = Num (133 / 100), newY = Num (110 / 100), newZ = Num 0, standingOnBlock = False\<rparr> \<and>
   snd (resolvePosition offPlatformEdge (fst (processMovement onPlatformEdge edgeControls))) =
     \<lparr>newX = Num (141 / 100), newY = Num (108 / 100), newZ = Num 0, standingOnBlock = False\<rparr> \<and>
   velocityY (fst (processMovement offPlatformEdge (fst (processMovement onPlatformEdge edgeControls))))
     = Num (- 2 / 100) \<and>
   canJump (fst (processMovement offPlatformEdge (fst (processMovement onPlatformEdge edgeControls)))) \<and>
   velocityY (keydown '' ''
       (fst (processMovement offPlatformEdge (fst (processMovement onPlatformEdge edgeControls)))))
     = Num (25 / 100) \<and>
   keysPressed (keydown '' '' jumpingControls) \<noteq> keysPressed jumpingControls"
  by (simp add: frame_defs vec_defs example_defs keydown_def toLowerCase_def toLowerChar_def Let_def)

text \<open>No frame takes the flag down: the loop and the ground check only ever raise it.\<close>

lemma collideBlock_canJump:
  "canJump (fst sl) \<Longrightarrow> canJump (fst (collideBlock cam mv y b sl))"
  by (simp add: collideBlock_def Let_def)

lemma forEachBlock_canJump:
  "canJump (fst sl) \<Longrightarrow> canJump (fst (forEachBlock cam mv y bs sl))"
  by (induction bs arbitrary: sl) (simp_all add: collideBlock_canJump)

lemma frame_keeps_canJump:
  assumes "canJump s"
  shows "canJump (fst (processMovement env s))"
proof (cases "isMobile s \<or> pointerLocked env")
  case True
  have "canJump (fst (afterBlocks env s))"
    unfolding afterBlocks_def runBlocks_def Let_def
    by (rule forEachBlock_canJump) (simp add: assms)
  then have "canJump (fst (resolvePosition env s))"
    by (simp add: resolvePosition_def groundCheck_def Let_def)
  then show ?thesis
    by (simp add: processMovement_open [OF True] commitPosition_keeps)
next
  case False
  with assms show ?thesis by (simp add: processMovement_def)
qed

subsection \<open>What a frame sends\<close>

text \<open>
  Claim C5. In a frame in which the movement is processed (on mobile, or with the pointer
  locked), \<open>processMovement\<close> calls
  \<open>updatePresence\<close> exactly when the position it settled on differs, by the comparison
  \<open>!==\<close> of the source, from the position stored in this client's record on some axis.
  When the position is the stored one on all three axes (three finite numbers equal to
  the stored ones), nothing is sent in the frame. When it differs, the record sent carries
  the new position and the camera's orientation. (An orientation change alone is sent by
  the \<open>change\<close> listener of the desktop controls, outside the frame.)
\<close>

theorem broadcast_suppression:
  assumes active: "isMobile s \<or> pointerLocked env"
  shows "(\<not> positionChanged (storedPresence env) (snd (resolvePosition env s)) \<longrightarrow>
            snd (processMovement env s) = None) \<and>
         (positionChanged (storedPresence env) (snd (resolvePosition env s)) \<longrightarrow>
            snd (processMovement env s) =
              Some \<lparr>presX = Some (newX (snd (resolvePosition env s))),
                    presY = Some (newY (snd (resolvePosition env s))),
                    presZ = Some (newZ (snd (resolvePosition env s))),
                    presQuaternion = Some (toArray (cameraQuaternion s)),
                    presName = None, presColor = None\<rparr>) \<and>
         (\<forall>a b c.
            newX (snd (resolvePosition env s)) = Num a \<and> presX (storedPresence env) = Some (Num a) \<and>
            newY (snd (resolvePosition env s)) = Num b \<and> presY (storedPresence env) = Some (Num b) \<and>
            newZ (snd (resolvePosition env s)) = Num c \<and> presZ (storedPresence env) = Some (Num c) \<longrightarrow>
            snd (processMovement env s) = None)"
proof -
  obtain v c where f: "fst (resolvePosition env s) = s\<lparr>velocityY := v, canJump := c\<rparr>"
    using resolvePosition_fields by blast
  show ?thesis
    by (auto simp: processMovement_open [OF active] commitPosition_def f Let_def positionChanged_def
             split: option.splits)
qed

text \<open>The standing player sends nothing; the player who has just jumped sends the new
  height 0.74 with the camera's orientation.\<close>

theorem broadcast_suppression_witness:
  "(isMobile standingControls \<or> pointerLocked emptyWorld) \<and>
   \<not> positionChanged (storedPresence emptyWorld) (snd (resolvePosition emptyWorld standingControls)) \<and>
   snd (processMovement emptyWorld standingControls) = None \<and>
   positionChanged (storedPresence emptyWorld) (snd (resolvePosition emptyWorld jumpingControls)) \<and>
   snd (processMovement emptyWorld jumpingControls) =
     Some \<lparr>presX = Some (Num 0), presY = Some (Num (74 / 100)), presZ = Some (Num 0),
           presQuaternion = Some [Num 0, Num 0, Num 0, Num 1],
           presName = None, presColor = None\<rparr>"
proof -
  have g: "isMobile standingControls \<or> pointerLocked emptyWorld"
    "isMobile jumpingControls \<or> pointerLocked emptyWorld"
    by (simp_all add: example_defs)
  have same: "\<not> positionChanged (storedPresence emptyWorld)
                  (snd (resolvePosition emptyWorld standingControls))"
    by (simp add: frame_defs vec_defs example_defs Let_def)
  have moved: "positionChanged (storedPresence emptyWorld)
                 (snd (resolvePosition emptyWorld jumpingControls))"
    by (simp add: frame_defs vec_defs example_defs Let_def)
  have pos: "snd (resolvePosition emptyWorld jumpingControls) =
      \<lparr>newX = Num 0, newY = Num (74 / 100), newZ = Num 0, standingOnBlock = False\<rparr>"
    by (simp add: frame_defs vec_defs example_defs Let_def)
  have q: "toArray (cameraQuaternion jumpingControls) = [Num 0, Num 0, Num 0, Num 1]"
    by (simp add: example_defs)
  from broadcast_suppression [OF g(1)] broadcast_suppression [OF g(2)] same moved pos q g(1)
  show ?thesis by simp
qed

subsection \<open>Frames with the pointer released\<close>

text \<open>
  Claim C10. On desktop, while the pointer is not locked on the canvas, \<open>processMovement\<close>
  returns at once: the controls object is unchanged (position, vertical velocity, jump
  flag and all the rest; gravity is not applied) and nothing is sent to the room.
\<close>

theorem pointer_released:
  "\<not> isMobile s \<Longrightarrow> \<not> pointerLocked env \<Longrightarrow> processMovement env s = (s, None)"
  by (simp add: processMovement_def)

text \<open>The player who has just jumped keeps the velocity 0.25 for as long as the pointer is
  released, where a frame with the pointer locked takes it to 0.24.\<close>

theorem pointer_released_witness:
  "\<not> isMobile jumpingControls \<and> \<not> pointerLocked (emptyWorld\<lparr>pointerLocked := False\<rparr>) \<and>
   processMovement (emptyWorld\<lparr>pointerLocked := False\<rparr>) jumpingControls = (jumpingControls, None) \<and>
   velocityY (fst (processMovement (emptyWorld\<lparr>pointerLocked := False\<rparr>) jumpingControls)) = Num (25 / 100) \<and>
   velocityY (fst (processMovement emptyWorld jumpingControls)) = Num (24 / 100)"
proof -
  have d: "\<not> isMobile jumpingControls" by (simp add: example_defs)
  have u: "\<not> pointerLocked (emptyWorld\<lparr>pointerLocked := False\<rparr>)" by simp
  have v: "velocityY jumpingControls = Num (25 / 100)" by (simp add: example_defs JUMP_FORCE_def)
  have w: "velocityY (fst (processMovement emptyWorld jumpingControls)) = Num (24 / 100)"
    by (simp add: frame_defs vec_defs example_defs Let_def)
  from pointer_released [OF d u] d u v w show ?thesis by simp
qed

subsection \<open>The test of the camera direction\<close>

lemma normalize_finite:
  assumes "\<not> isNaN (vecX v)" "\<not> isNaN (vecY v)" "\<not> isNaN (vecZ v)"
  shows "\<not> isNaN (vecX (normalize v)) \<and> \<not> isNaN (vecY (normalize v)) \<and> \<not> isNaN (vecZ (normalize v))"
proof -
  obtain a b c where v: "v = Vector3 (Num a) (Num b) (Num c)"
    using assms by (cases v; cases "vecX v"; cases "vecY v"; cases "vecZ v") simp_all
  have "\<not> a * a + b * b + c * c < 0"
    by (simp add: not_less)
  then show ?thesis
    by (simp add: v vec_defs)
qed

lemma guardDirection_finite:
  "\<not> isNaN (vecX (guardDirection d)) \<and> \<not> isNaN (vecY (guardDirection d)) \<and>
   \<not> isNaN (vecZ (guardDirection d))"
  by (simp add: guardDirection_def)

lemma plus_finite:
  "\<not> isNaN a \<Longrightarrow> \<not> isNaN b \<Longrightarrow> \<not> isNaN (a + b)"
  by (cases a; cases b) simp_all

text \<open>
  The one place where the camera direction is tested. On mobile, with the orbit controls
  present, in a frame whose position differs from the stored record: the direction is
  replaced by \<open>(0, 0, -1)\<close> when one of its components is \<open>NaN\<close>, and only then normalised and
  added to the new camera position to give the target of the orbit controls. The
  direction that is added has no \<open>NaN\<close> component, so the target has one only if the new
  position has one.
\<close>

lemma orbit_target_guarded:
  assumes mobile: "isMobile s" and orbit: "orbitTarget s = Some target"
    and changed: "positionChanged (storedPresence env) (snd (resolvePosition env s))"
  shows "(let raw = getWorldDirection env (cameraQuaternion s);
              d = normalize (guardDirection raw);
              l = snd (resolvePosition env s);
              t = Vector3 (newX l + vecX d) (newY l + Num (12 / 10) + vecY d) (newZ l + vecZ d)
          in orbitTarget (fst (processMovement env s)) = Some t \<and>
             \<not> isNaN (vecX d) \<and> \<not> isNaN (vecY d) \<and> \<not> isNaN (vecZ d) \<and>
             (isNaN (vecX raw) \<or> isNaN (vecY raw) \<or> isNaN (vecZ raw) \<longrightarrow>
                d = Vector3 (Num 0) (Num 0) (Num (- 1))) \<and>
             (\<not> isNaN (newX l) \<and> \<not> isNaN (newY l) \<and> \<not> isNaN (newZ l) \<longrightarrow>
                \<not> isNaN (vecX t) \<and> \<not> isNaN (vecY t) \<and> \<not> isNaN (vecZ t)))"
proof -
  let ?raw = "getWorldDirection env (cameraQuaternion s)"
  let ?d = "normalize (guardDirection ?raw)"
  let ?l = "snd (resolvePosition env s)"
  obtain v c where f: "fst (resolvePosition env s) = s\<lparr>velocityY := v, canJump := c\<rparr>"
    using resolvePosition_fields by blast
  have active: "isMobile s \<or> pointerLocked env" using mobile by simp
  have target: "orbitTarget (fst (processMovement env s)) =
      Some (Vector3 (newX ?l + vecX ?d) (newY ?l + Num (12 / 10) + vecY ?d) (newZ ?l + vecZ ?d))"
    using mobile orbit changed
    by (simp add: processMovement_open [OF active] commitPosition_def f Let_def
          updateOrbitControls_def newOrbitTarget_def)
  have fin: "\<not> isNaN (vecX ?d) \<and> \<not> isNaN (vecY ?d) \<and> \<not> isNaN (vecZ ?d)"
    using normalize_finite guardDirection_finite by blast
  have dflt: "?d = Vector3 (Num 0) (Num 0) (Num (- 1))"
    if "isNaN (vecX ?raw) \<or> isNaN (vecY ?raw) \<or> isNaN (vecZ ?raw)"
    using that by (simp add: guardDirection_def vec_defs)
  have sum: "\<not> isNaN (newX ?l + vecX ?d) \<and> \<not> isNaN (newY ?l + Num (12 / 10) + vecY ?d) \<and>
      \<not> isNaN (newZ ?l + vecZ ?d)"
    if "\<not> isNaN (newX ?l) \<and> \<not> isNaN (newY ?l) \<and> \<not> isNaN (newZ ?l)"
    using that fin by (simp add: plus_finite)
  from target fin dflt sum show ?thesis by (simp add: Let_def)
qed

text \<open>The test at work: the player falls with the joystick at rest while the camera is
  broken, the direction \<open>(NaN, NaN, NaN)\<close> is replaced, and the target follows the player
  down.\<close>

lemma orbit_target_guarded_example:
  "isMobile fallingBrokenControls \<and>
   getWorldDirection highBrokenCamera (cameraQuaternion fallingBrokenControls) = Vector3 NaN NaN NaN \<and>
   guardDirection (getWorldDirection highBrokenCamera (cameraQuaternion fallingBrokenControls)) =
     Vector3 (Num 0) (Num 0) (Num (- 1)) \<and>
   positionChanged (storedPresence highBrokenCamera)
     (snd (resolvePosition highBrokenCamera fallingBrokenControls)) \<and>
   orbitTarget (fst (processMovement highBrokenCamera fallingBrokenControls)) =
     Some (Vector3 (Num 0) (Num (319 / 100)) (Num (- 1)))"
proof -
  have m: "isMobile fallingBrokenControls" by (simp add: example_defs)
  have t: "orbitTarget fallingBrokenControls = Some (Vector3 (Num 0) (Num (32 / 10)) (Num (- 1)))"
    by (simp add: example_defs)
  have l: "snd (resolvePosition highBrokenCamera fallingBrokenControls) =
     \<lparr>newX = Num 0, newY = Num (199 / 100), newZ = Num 0, standingOnBlock = False\<rparr>"
    by (simp add: frame_defs vec_defs example_defs Let_def)
  have c: "positionChanged (storedPresence highBrokenCamera)
             (snd (resolvePosition highBrokenCamera fallingBrokenControls))"
    by (simp add: l) (simp add: frame_defs example_defs)
  have r: "getWorldDirection highBrokenCamera (cameraQuaternion fallingBrokenControls) =
      Vector3 NaN NaN NaN"
    by (simp add: example_defs)
  have d: "normalize (guardDirection (Vector3 NaN NaN NaN)) = Vector3 (Num 0) (Num 0) (Num (- 1))"
    "guardDirection (Vector3 NaN NaN NaN) = Vector3 (Num 0) (Num 0) (Num (- 1))"
    by (simp_all add: guardDirection_def vec_defs)
  from orbit_target_guarded [OF m t c] m c l r d show ?thesis by (simp add: Let_def)
qed

text \<open>
  Claim C8. Every computed camera direction that has a non-finite component is to be
  replaced by a safe default before it is used, so that no non-finite position or
  orientation is committed to the local state or sent to the room. The code tests the
  direction where it sets the target of the orbit controls, and nowhere else: the two
  earlier computations of the direction, which give the movement, and the orientation
  that is sent are not tested. So the claim fails on the code. With a broken camera and
  the joystick pushed forward, the \<open>NaN\<close> direction goes into the movement; the frame commits
  a camera position with \<open>NaN\<close> in \<open>x\<close> and \<open>z\<close> and sends that position, with the \<open>NaN\<close>
  orientation, to the room. With the joystick at rest and the player falling, the test
  replaces the direction and the target is sound, yet the \<open>NaN\<close> orientation is sent.
\<close>

theorem nan_direction_committed:
  "getWorldDirection brokenCamera (cameraQuaternion touchControls) = Vector3 NaN NaN NaN \<and>
   movementVector brokenCamera touchControls = Vector3 NaN (Num 0) NaN \<and>
   cameraPosition (fst (processMovement brokenCamera touchControls)) = Vector3 NaN (Num (17 / 10)) NaN \<and>
   snd (processMovement brokenCamera touchControls) =
     Some \<lparr>presX = Some NaN, presY = Some (Num (5 / 10)), presZ = Some NaN,
           presQuaternion = Some [NaN, NaN, NaN, NaN],
           presName = None, presColor = None\<rparr> \<and>
   orbitTarget (fst (processMovement highBrokenCamera fallingBrokenControls)) =
     Some (Vector3 (Num 0) (Num (319 / 100)) (Num (- 1))) \<and>
   snd (processMovement highBrokenCamera fallingBrokenControls) =
     Some \<lparr>presX = Some (Num 0), presY = Some (Num (199 / 100)), presZ = Some (Num 0),
           presQuaternion = Some [NaN, NaN, NaN, NaN],
           presName = None, presColor = None\<rparr>"
  by (simp add: frame_defs vec_defs example_defs Let_def)

section \<open>Properties of the presence synchronizer\<close>

subsection \<open>The map of player objects\<close>

lemma mapSet_keys: "fst ` set (mapSet k v es) = insert k (fst ` set es)"
  by (induction es) auto

lemma mapSet_distinct: "distinct (map fst es) \<Longrightarrow> distinct (map fst (mapSet k v es))"
  by (induction es) (auto simp: mapSet_keys)

lemma map_of_mapSet: "map_of (mapSet k v es) k' = (if k' = k then Some v else map_of es k')"
  by (induction es) auto

lemma mapDelete_keys: "fst ` set (mapDelete k es) = fst ` set es - {k}"
  by (auto simp: mapDelete_def)

lemma mapDelete_distinct: "distinct (map fst es) \<Longrightarrow> distinct (map fst (mapDelete k es))"
  by (simp add: mapDelete_def distinct_map_filter)

lemma known_map_of: "ident \<in> knownIds st \<longleftrightarrow> map_of (playerObjects st) ident \<noteq> None"
  by (simp add: knownIds_def map_of_eq_None_iff)

subsection \<open>One call of \<open>updatePlayerObject\<close> and of \<open>removePlayerObject\<close>\<close>

lemma updatePlayerObject_known:
  "knownIds (updatePlayerObject self q ident (Some p) st) =
     (if ident = [] then knownIds st else insert ident (knownIds st))"
  by (auto simp: updatePlayerObject_def knownIds_def Let_def mapSet_keys map_of_mapSet
           split: option.splits dest: map_of_SomeD)

lemma updatePlayerObject_log:
  "sceneLog (updatePlayerObject self q ident (Some p) st) =
     sceneLog st @ (if ident \<noteq> [] \<and> ident \<notin> knownIds st then [Added ident] else [])"
  by (auto simp: updatePlayerObject_def known_map_of Let_def map_of_mapSet split: option.splits)

lemma updatePlayerObject_distinct:
  "distinct (map fst (playerObjects st)) \<Longrightarrow>
   distinct (map fst (playerObjects (updatePlayerObject self q ident presence st)))"
  by (auto simp: updatePlayerObject_def Let_def mapSet_distinct split: option.splits)

lemma removePlayerObject_known:
  "knownIds (removePlayerObject ident st) = knownIds st - {ident}"
  by (auto simp: removePlayerObject_def knownIds_def mapDelete_keys map_of_eq_None_iff
           split: option.splits)

lemma removePlayerObject_log:
  "sceneLog (removePlayerObject ident st) =
     sceneLog st @ (if ident \<in> knownIds st then [Removed ident] else [])"
  by (auto simp: removePlayerObject_def known_map_of split: option.splits)

lemma removePlayerObject_distinct:
  "distinct (map fst (playerObjects st)) \<Longrightarrow>
   distinct (map fst (playerObjects (removePlayerObject ident st)))"
  by (auto simp: removePlayerObject_def mapDelete_distinct split: option.splits)

subsection \<open>The two loops of the callback\<close>

lemma updateStep_known:
  "knownIds (updateStep self q snap k st) =
     (if k \<noteq> self \<and> k \<noteq> [] \<and> presenceOf snap k \<noteq> None then insert k (knownIds st)
      else knownIds st)"
  by (auto simp: updateStep_def updatePlayerObject_known)

lemma updateStep_log:
  "sceneLog (updateStep self q snap k st) =
     sceneLog st @
       (if k \<noteq> self \<and> k \<noteq> [] \<and> presenceOf snap k \<noteq> None \<and> k \<notin> knownIds st then [Added k] else [])"
  by (auto simp: updateStep_def updatePlayerObject_log)

lemma updateStep_distinct:
  "distinct (map fst (playerObjects st)) \<Longrightarrow>
   distinct (map fst (playerObjects (updateStep self q snap k st)))"
  by (simp add: updateStep_def updatePlayerObject_distinct)

lemma removeStep_known:
  "knownIds (removeStep self snap k st) =
     (if k \<noteq> self \<and> presenceOf snap k = None then knownIds st - {k} else knownIds st)"
  by (simp add: removeStep_def removePlayerObject_known)

lemma removeStep_log:
  "sceneLog (removeStep self snap k st) =
     sceneLog st @
       (if k \<noteq> self \<and> presenceOf snap k = None \<and> k \<in> knownIds st then [Removed k] else [])"
  by (simp add: removeStep_def removePlayerObject_log)

lemma removeStep_distinct:
  "distinct (map fst (playerObjects st)) \<Longrightarrow>
   distinct (map fst (playerObjects (removeStep self snap k st)))"
  by (simp add: removeStep_def removePlayerObject_distinct)

lemma updateLoop_known:
  "knownIds (fold (updateStep self q snap) ks st) =
     knownIds st \<union> {k \<in> set ks. k \<noteq> self \<and> k \<noteq> [] \<and> presenceOf snap k \<noteq> None}"
  by (induction ks arbitrary: st) (auto simp: updateStep_known)

lemma updateLoop_added:
  "count_list (sceneLog (fold (updateStep self q snap) ks st)) (Added B) =
     count_list (sceneLog st) (Added B) +
       (if B \<in> set ks \<and> B \<noteq> self \<and> B \<noteq> [] \<and> presenceOf snap B \<noteq> None \<and> B \<notin> knownIds st
        then 1 else 0)"
proof (induction ks arbitrary: st)
  case Nil
  show ?case by simp
next
  case (Cons k ks)
  show ?case
    using Cons.IH [of "updateStep self q snap k st"]
    by (auto simp: updateStep_known updateStep_log)
qed

lemma updateLoop_removed:
  "count_list (sceneLog (fold (updateStep self q snap) ks st)) (Removed B) =
     count_list (sceneLog st) (Removed B)"
  by (induction ks arbitrary: st) (simp_all add: updateStep_log)

lemma updateLoop_distinct:
  "distinct (map fst (playerObjects st)) \<Longrightarrow>
   distinct (map fst (playerObjects (fold (updateStep self q snap) ks st)))"
  by (induction ks arbitrary: st) (simp_all add: updateStep_distinct)

lemma removeLoop_known:
  "knownIds (fold (removeStep self snap) ks st) =
     knownIds st - {k \<in> set ks. k \<noteq> self \<and> presenceOf snap k = None}"
  by (induction ks arbitrary: st) (auto simp: removeStep_known)

lemma removeLoop_removed:
  "count_list (sceneLog (fold (removeStep self snap) ks st)) (Removed B) =
     count_list (sceneLog st) (Removed B) +
       (if B \<in> set ks \<and> B \<noteq> self \<and> presenceOf snap B = None \<and> B \<in> knownIds st then 1 else 0)"
proof (induction ks arbitrary: st)
  case Nil
  show ?case by simp
next
  case (Cons k ks)
  show ?case
    using Cons.IH [of "removeStep self snap k st"]
    by (auto simp: removeStep_known removeStep_log)
qed

lemma removeLoop_added:
  "count_list (sceneLog (fold (removeStep self snap) ks st)) (Added B) =
     count_list (sceneLog st) (Added B)"
  by (induction ks arbitrary: st) (simp_all add: removeStep_log)

lemma removeLoop_distinct:
  "distinct (map fst (playerObjects st)) \<Longrightarrow>
   distinct (map fst (playerObjects (fold (removeStep self snap) ks st)))"
  by (induction ks arbitrary: st) (simp_all add: removeStep_distinct)

subsection \<open>One callback\<close>

lemma presenceOf_key: "presenceOf snap k \<noteq> None \<Longrightarrow> k \<in> set (map fst snap)"
proof -
  assume "presenceOf snap k \<noteq> None"
  then have "map_of snap k \<noteq> None"
    by (auto simp: presenceOf_def split: option.splits)
  then show ?thesis by (simp add: map_of_eq_None_iff)
qed

lemma updateLoop_snapshot_known:
  "knownIds (fold (updateStep self q snap) (map fst snap) st) =
     knownIds st \<union> {k. k \<noteq> self \<and> k \<noteq> [] \<and> presenceOf snap k \<noteq> None}"
proof -
  have "{k \<in> set (map fst snap). k \<noteq> self \<and> k \<noteq> [] \<and> presenceOf snap k \<noteq> None} =
        {k. k \<noteq> self \<and> k \<noteq> [] \<and> presenceOf snap k \<noteq> None}"
    using presenceOf_key by blast
  then show ?thesis by (simp only: updateLoop_known)
qed

lemma callback_known:
  "knownIds (presenceCallback self q snap st) =
     {k \<in> knownIds st. k = self \<or> presenceOf snap k \<noteq> None} \<union>
     {k. k \<noteq> self \<and> k \<noteq> [] \<and> presenceOf snap k \<noteq> None}"
proof -
  let ?st1 = "fold (updateStep self q snap) (map fst snap) st"
  have ks: "set (map fst (playerObjects ?st1)) = knownIds ?st1"
    by (simp only: knownIds_def set_map)
  have k1: "knownIds ?st1 = knownIds st \<union> {k. k \<noteq> self \<and> k \<noteq> [] \<and> presenceOf snap k \<noteq> None}"
    by (rule updateLoop_snapshot_known)
  have "presenceCallback self q snap st = fold (removeStep self snap) (map fst (playerObjects ?st1)) ?st1"
    by (simp only: presenceCallback_def Let_def)
  then have eq: "knownIds (presenceCallback self q snap st) =
      knownIds ?st1 - {k \<in> set (map fst (playerObjects ?st1)). k \<noteq> self \<and> presenceOf snap k = None}"
    by (simp only: removeLoop_known)
  show ?thesis
    unfolding eq ks k1 by auto
qed

lemma callback_added:
  "count_list (sceneLog (presenceCallback self q snap st)) (Added B) =
     count_list (sceneLog st) (Added B) +
       (if B \<noteq> self \<and> B \<noteq> [] \<and> presenceOf snap B \<noteq> None \<and> B \<notin> knownIds st then 1 else 0)"
proof -
  let ?st1 = "fold (updateStep self q snap) (map fst snap) st"
  have "presenceCallback self q snap st = fold (removeStep self snap) (map fst (playerObjects ?st1)) ?st1"
    by (simp only: presenceCallback_def Let_def)
  then have "count_list (sceneLog (presenceCallback self q snap st)) (Added B) =
      count_list (sceneLog ?st1) (Added B)"
    by (simp only: removeLoop_added)
  moreover have "(B \<in> set (map fst snap) \<and> B \<noteq> self \<and> B \<noteq> [] \<and> presenceOf snap B \<noteq> None \<and> B \<notin> knownIds st)
      = (B \<noteq> self \<and> B \<noteq> [] \<and> presenceOf snap B \<noteq> None \<and> B \<notin> knownIds st)"
    using presenceOf_key [of snap B] by blast
  ultimately show ?thesis
    by (simp only: updateLoop_added)
qed

lemma callback_removed:
  "count_list (sceneLog (presenceCallback self q snap st)) (Removed B) =
     count_list (sceneLog st) (Removed B) +
       (if B \<noteq> self \<and> presenceOf snap B = None \<and> B \<in> knownIds st then 1 else 0)"
proof -
  let ?st1 = "fold (updateStep self q snap) (map fst snap) st"
  have ks: "set (map fst (playerObjects ?st1)) = knownIds ?st1"
    by (simp only: knownIds_def set_map)
  have "presenceCallback self q snap st = fold (removeStep self snap) (map fst (playerObjects ?st1)) ?st1"
    by (simp only: presenceCallback_def Let_def)
  then have "count_list (sceneLog (presenceCallback self q snap st)) (Removed B) =
      count_list (sceneLog st) (Removed B) +
        (if B \<in> knownIds ?st1 \<and> B \<noteq> self \<and> presenceOf snap B = None \<and> B \<in> knownIds ?st1
         then 1 else 0)"
    by (simp only: removeLoop_removed ks updateLoop_removed)
  moreover have "(B \<in> knownIds ?st1 \<and> B \<noteq> self \<and> presenceOf snap B = None \<and> B \<in> knownIds ?st1)
      = (B \<noteq> self \<and> presenceOf snap B = None \<and> B \<in> knownIds st)"
    unfolding updateLoop_snapshot_known by blast
  ultimately show ?thesis by (simp only:)
qed

lemma callback_distinct:
  "distinct (map fst (playerObjects st)) \<Longrightarrow>
   distinct (map fst (playerObjects (presenceCallback self q snap st)))"
  by (simp add: presenceCallback_def Let_def removeLoop_distinct updateLoop_distinct)

subsection \<open>A run of callbacks\<close>

lemma syncRun_append:
  "syncRun self (xs @ ys) st = syncRun self ys (syncRun self xs st)"
  by (simp add: syncRun_def)

lemma syncRun_distinct:
  "distinct (map fst (playerObjects st)) \<Longrightarrow>
   distinct (map fst (playerObjects (syncRun self calls st)))"
  unfolding syncRun_def
  by (induction calls arbitrary: st) (simp_all add: callback_distinct)

lemma syncRun_clean:
  "self \<notin> knownIds st \<Longrightarrow> [] \<notin> knownIds st \<Longrightarrow>
   self \<notin> knownIds (syncRun self calls st) \<and> [] \<notin> knownIds (syncRun self calls st)"
  unfolding syncRun_def
  by (induction calls arbitrary: st) (simp_all add: callback_known)

text \<open>While every snapshot has the player, the player stays known, is added to the scene
  once if it was not known before, and is never removed.\<close>

lemma syncRun_present:
  assumes "B \<noteq> self" "B \<noteq> []" "calls \<noteq> []" "\<forall>call \<in> set calls. presenceOf (snd call) B \<noteq> None"
  shows "B \<in> knownIds (syncRun self calls st) \<and>
         count_list (sceneLog (syncRun self calls st)) (Added B) =
           count_list (sceneLog st) (Added B) + (if B \<in> knownIds st then 0 else 1) \<and>
         count_list (sceneLog (syncRun self calls st)) (Removed B) =
           count_list (sceneLog st) (Removed B)"
  using assms(3,4)
proof (induction calls arbitrary: st)
  case Nil
  then show ?case by simp
next
  case (Cons call calls)
  let ?st1 = "presenceCallback self (fst call) (snd call) st"
  have here: "presenceOf (snd call) B \<noteq> None" using Cons.prems by simp
  have one: "B \<in> knownIds ?st1"
    "count_list (sceneLog ?st1) (Added B) =
       count_list (sceneLog st) (Added B) + (if B \<in> knownIds st then 0 else 1)"
    "count_list (sceneLog ?st1) (Removed B) = count_list (sceneLog st) (Removed B)"
    using here assms(1,2) by (auto simp: callback_known callback_added callback_removed)
  show ?case
  proof (cases "calls = []")
    case True
    with one show ?thesis by (simp add: syncRun_def)
  next
    case False
    with Cons.IH [of ?st1] Cons.prems one show ?thesis by (simp add: syncRun_def)
  qed
qed

subsection \<open>The life of a remote avatar\<close>

text \<open>
  Claim C6, as amended. Let \<open>B\<close> be a connection id other than the client's own and not
  the empty string, with no entry in the map of player objects. Over any non-empty
  sequence of snapshots that all hold a record for \<open>B\<close> (changed or not), the synchronizer
  adds exactly one group for \<open>B\<close> to the scene and removes none, and \<open>B\<close> has an entry in the
  map; after a following snapshot without \<open>B\<close> it has still added exactly one, has removed
  exactly one, and \<open>B\<close> has no entry. Moreover, after every callback of a run that started
  with the empty map, the map holds one entry for each id of the snapshot that is not the
  client's own, is not empty and has a record, and no other entry.
\<close>

theorem presence_lifecycle:
  assumes other: "B \<noteq> self" and named: "B \<noteq> []"
    and unseen: "B \<notin> knownIds st"
    and some: "calls \<noteq> []"
    and present: "\<forall>call \<in> set calls. presenceOf (snd call) B \<noteq> None"
    and gone: "presenceOf goneSnap B = None"
  shows "count_list (sceneLog (syncRun self calls st)) (Added B) =
           count_list (sceneLog st) (Added B) + 1 \<and>
         count_list (sceneLog (syncRun self calls st)) (Removed B) =
           count_list (sceneLog st) (Removed B) \<and>
         B \<in> knownIds (syncRun self calls st) \<and>
         count_list (sceneLog (syncRun self (calls @ [(q, goneSnap)]) st)) (Added B) =
           count_list (sceneLog st) (Added B) + 1 \<and>
         count_list (sceneLog (syncRun self (calls @ [(q, goneSnap)]) st)) (Removed B) =
           count_list (sceneLog st) (Removed B) + 1 \<and>
         B \<notin> knownIds (syncRun self (calls @ [(q, goneSnap)]) st) \<and>
         knownIds (syncRun self (earlier @ [(q', snap)]) initialSync) =
           {k. k \<noteq> self \<and> k \<noteq> [] \<and> presenceOf snap k \<noteq> None} \<and>
         distinct (map fst (playerObjects (syncRun self (earlier @ [(q', snap)]) initialSync)))"
proof -
  let ?mid = "syncRun self calls st"
  have mid: "B \<in> knownIds ?mid"
    "count_list (sceneLog ?mid) (Added B) = count_list (sceneLog st) (Added B) + 1"
    "count_list (sceneLog ?mid) (Removed B) = count_list (sceneLog st) (Removed B)"
    using syncRun_present [OF other named some present, of st] unseen by simp_all
  have last: "syncRun self (calls @ [(q, goneSnap)]) st = presenceCallback self q goneSnap ?mid"
    by (simp add: syncRun_append) (simp add: syncRun_def)
  have after: "count_list (sceneLog (presenceCallback self q goneSnap ?mid)) (Added B) =
        count_list (sceneLog st) (Added B) + 1"
    "count_list (sceneLog (presenceCallback self q goneSnap ?mid)) (Removed B) =
        count_list (sceneLog st) (Removed B) + 1"
    "B \<notin> knownIds (presenceCallback self q goneSnap ?mid)"
    using mid gone other by (simp_all add: callback_added callback_removed callback_known)
  let ?before = "syncRun self earlier initialSync"
  have start: "self \<notin> knownIds initialSync" "[] \<notin> knownIds initialSync"
    "distinct (map fst (playerObjects initialSync))"
    by (simp_all add: knownIds_def initialSync_def)
  have clean: "self \<notin> knownIds ?before" "[] \<notin> knownIds ?before"
    using syncRun_clean [OF start(1,2)] by simp_all
  have run: "syncRun self (earlier @ [(q', snap)]) initialSync = presenceCallback self q' snap ?before"
    by (simp add: syncRun_append) (simp add: syncRun_def)
  have inv: "knownIds (presenceCallback self q' snap ?before) =
      {k. k \<noteq> self \<and> k \<noteq> [] \<and> presenceOf snap k \<noteq> None}"
    unfolding callback_known using clean by auto
  have dist: "distinct (map fst (playerObjects (syncRun self (earlier @ [(q', snap)]) initialSync)))"
    using syncRun_distinct [OF start(3)] by simp
  from mid after inv dist show ?thesis
    by (simp only: last run) simp
qed

text \<open>The player \<open>B\<close> appears, stays over a second snapshot in which it has lost its name,
  and leaves: one group is added, and the same group is removed.\<close>

theorem presence_lifecycle_witness:
  "''B'' \<noteq> ''A'' \<and> ''B'' \<noteq> [] \<and> ''B'' \<notin> knownIds initialSync \<and>
   presenceOf roomWithB ''B'' \<noteq> None \<and> presenceOf roomWithNamelessB ''B'' \<noteq> None \<and>
   presenceOf roomWithoutB ''B'' = None \<and>
   count_list (sceneLog (syncRun ''A''
       [(identityQuaternion, roomWithB), (identityQuaternion, roomWithNamelessB)] initialSync))
     (Added ''B'') = 1 \<and>
   ''B'' \<in> knownIds (syncRun ''A''
       [(identityQuaternion, roomWithB), (identityQuaternion, roomWithNamelessB)] initialSync) \<and>
   sceneLog (syncRun ''A''
       ([(identityQuaternion, roomWithB), (identityQuaternion, roomWithNamelessB)] @
        [(identityQuaternion, roomWithoutB)]) initialSync) = [Added ''B'', Removed ''B''] \<and>
   playerObjects (syncRun ''A''
       ([(identityQuaternion, roomWithB), (identityQuaternion, roomWithNamelessB)] @
        [(identityQuaternion, roomWithoutB)]) initialSync) = []"
proof -
  let ?calls = "[(identityQuaternion, roomWithB), (identityQuaternion, roomWithNamelessB)]"
  have a: "''B'' \<noteq> ''A''" "''B'' \<noteq> []" "''B'' \<notin> knownIds initialSync" "?calls \<noteq> []"
    by (simp_all add: knownIds_def initialSync_def)
  have p: "presenceOf roomWithB ''B'' \<noteq> None" "presenceOf roomWithNamelessB ''B'' \<noteq> None"
    by (simp_all add: presenceOf_def roomWithB_def roomWithNamelessB_def)
  then have p': "\<forall>call \<in> set ?calls. presenceOf (snd call) ''B'' \<noteq> None"
    by simp
  have g: "presenceOf roomWithoutB ''B'' = None"
    by (simp add: presenceOf_def roomWithoutB_def)
  have run: "sceneLog (syncRun ''A'' (?calls @ [(identityQuaternion, roomWithoutB)]) initialSync) =
      [Added ''B'', Removed ''B'']"
    "playerObjects (syncRun ''A'' (?calls @ [(identityQuaternion, roomWithoutB)]) initialSync) = []"
    by (simp_all add: syncRun_def presenceCallback_def updateStep_def removeStep_def
          updatePlayerObject_def removePlayerObject_def presenceOf_def mapDelete_def
          roomWithB_def roomWithNamelessB_def roomWithoutB_def initialSync_def Let_def)
  have z: "count_list (sceneLog initialSync) (Added ''B'') = 0"
    by (simp add: initialSync_def)
  from presence_lifecycle [OF a(1) a(2) a(3) a(4) p' g, of identityQuaternion] a p g run z
  show ?thesis by simp
qed

text \<open>
  The claim as stated fails for the empty connection id: \<open>updatePlayerObject\<close> returns at
  once when the id is falsy, so a snapshot that holds a record under the key \<open>""\<close> creates
  nothing.
\<close>

theorem presence_lifecycle_counterexample:
  "[] \<noteq> ''A'' \<and>
   presenceOf [([], Some recordOfB)] [] = Some recordOfB \<and>
   presenceCallback ''A'' identityQuaternion [([], Some recordOfB)] initialSync = initialSync"
  by (simp add: presenceCallback_def updateStep_def removeStep_def updatePlayerObject_def
        presenceOf_def initialSync_def Let_def)

subsection \<open>Records with missing fields\<close>



















section \<open>Properties of the obstacle generator\<close>

text \<open>Each loop body appends one child to the scene; the child and the next seed depend
  on the seed alone.\<close>

lemma addBarrier_step:
  "\<exists>nxt wall. isBarrier wall \<and> \<not> isBlock wall \<and>
      (\<forall>scene. addBarrier (seed, scene) = (nxt, scene @ [wall]))"
  by (simp add: addBarrier_def Let_def)

lemma addPlatform_step:
  "\<exists>nxt platform. isBlock platform \<and> \<not> isBarrier platform \<and>
      geometrySize platform = Some (Vector3 (Num 2) (Num (5 / 10)) (Num 2)) \<and>
      (\<forall>scene. addPlatform (seed, scene) = (nxt, scene @ [platform]))"
  by (simp add: addPlatform_def Let_def)

lemma barriers_loop:
  "\<exists>nxt walls. map isBarrier walls = replicate n True \<and> map isBlock walls = replicate n False \<and>
      (\<forall>scene. times_loop n addBarrier (seed, scene) = (nxt, scene @ walls))"
proof (induction n arbitrary: seed)
  case 0
  show ?case by simp
next
  case (Suc n)
  obtain nxt wall where w: "isBarrier wall" "\<not> isBlock wall"
      and one: "\<And>scene. addBarrier (seed, scene) = (nxt, scene @ [wall])"
    using addBarrier_step by blast
  obtain nxt' walls where ws: "map isBarrier walls = replicate n True"
      "map isBlock walls = replicate n False"
      and more: "\<And>scene. times_loop n addBarrier (nxt, scene) = (nxt', scene @ walls)"
    using Suc.IH [of nxt] by blast
  have "map isBarrier (wall # walls) = replicate (Suc n) True"
    "map isBlock (wall # walls) = replicate (Suc n) False"
    "\<forall>scene. times_loop (Suc n) addBarrier (seed, scene) = (nxt', scene @ wall # walls)"
    by (simp_all add: w ws one more)
  then show ?case by blast
qed

lemma platforms_loop:
  "\<exists>nxt platforms. map isBarrier platforms = replicate n False \<and>
      map isBlock platforms = replicate n True \<and>
      map geometrySize platforms = replicate n (Some (Vector3 (Num 2) (Num (5 / 10)) (Num 2))) \<and>
      (\<forall>scene. times_loop n addPlatform (seed, scene) = (nxt, scene @ platforms))"
proof (induction n arbitrary: seed)
  case 0
  show ?case by simp
next
  case (Suc n)
  obtain nxt platform where p: "isBlock platform" "\<not> isBarrier platform"
      "geometrySize platform = Some (Vector3 (Num 2) (Num (5 / 10)) (Num 2))"
      and one: "\<And>scene. addPlatform (seed, scene) = (nxt, scene @ [platform])"
    using addPlatform_step by blast
  obtain nxt' platforms where ps: "map isBarrier platforms = replicate n False"
      "map isBlock platforms = replicate n True"
      "map geometrySize platforms = replicate n (Some (Vector3 (Num 2) (Num (5 / 10)) (Num 2)))"
      and more: "\<And>scene. times_loop n addPlatform (nxt, scene) = (nxt', scene @ platforms)"
    using Suc.IH [of nxt] by blast
  have "map isBarrier (platform # platforms) = replicate (Suc n) False"
    "map isBlock (platform # platforms) = replicate (Suc n) True"
    "map geometrySize (platform # platforms) =
       replicate (Suc n) (Some (Vector3 (Num 2) (Num (5 / 10)) (Num 2)))"
    "\<forall>scene. times_loop (Suc n) addPlatform (seed, scene) = (nxt', scene @ platform # platforms)"
    by (simp_all add: p ps one more)
  then show ?case by blast
qed

text \<open>
  Claim C9. The obstacles that \<open>createBarriers\<close> adds are a function of the seed alone: two
  runs with the same seed, into whatever scenes, append the same sequence, which is the
  one a run into the empty scene produces. The sequence has 25 members: 15 barriers
  followed by 10 platforms of size \<open>2 x 0.5 x 2\<close>. No other source of randomness enters.
\<close>

theorem generator_deterministic:
  "createBarriersSeeded seed scene1 = scene1 @ createBarriersSeeded seed [] \<and>
   createBarriersSeeded seed scene2 = scene2 @ createBarriersSeeded seed [] \<and>
   length (createBarriersSeeded seed []) = 25 \<and>
   map isBarrier (createBarriersSeeded seed []) = replicate 15 True @ replicate 10 False \<and>
   map isBlock (createBarriersSeeded seed []) = replicate 15 False @ replicate 10 True \<and>
   map geometrySize (drop 15 (createBarriersSeeded seed [])) =
     replicate 10 (Some (Vector3 (Num 2) (Num (5 / 10)) (Num 2)))"
proof -
  obtain mid walls where ws: "map isBarrier walls = replicate 15 True"
      "map isBlock walls = replicate 15 False"
      and first: "\<And>scene. times_loop 15 addBarrier (seed, scene) = (mid, scene @ walls)"
    using barriers_loop [of 15 seed] by blast
  obtain nxt platforms where ps: "map isBarrier platforms = replicate 10 False"
      "map isBlock platforms = replicate 10 True"
      "map geometrySize platforms = replicate 10 (Some (Vector3 (Num 2) (Num (5 / 10)) (Num 2)))"
      and second: "\<And>scene. times_loop 10 addPlatform (mid, scene) = (nxt, scene @ platforms)"
    using platforms_loop [of 10 mid] by blast
  have run: "createBarriersSeeded seed scene = scene @ walls @ platforms" for scene
    by (simp add: createBarriersSeeded_def first second)
  have lw: "length walls = 15"
    using ws(1) by (metis length_map length_replicate)
  have lp: "length platforms = 10"
    using ps(1) by (metis length_map length_replicate)
  show ?thesis
    using ws ps lw lp by (simp add: run)
qed

text \<open>The program's own call, with the seed 12345, into a scene that already holds a child.\<close>

theorem generator_deterministic_witness:
  "createBarriers [longWall] = longWall # createBarriers [] \<and> length (createBarriers []) = 25"
  using generator_deterministic [of 12345 "[longWall]" "[]"]
  by (simp add: createBarriers_def)

text \<open>Every draw lies in \<open>[0, 1)\<close>, so a barrier's dimensions lie in \<open>[1, 4)\<close>.\<close>

lemma random_range:
  "0 \<le> fst (random seed) \<and> fst (random seed) < 1"
  by (simp add: random_def Let_def) linarith

end
